theory Spec2Isabelle
  imports Main "HOL-Library.Word" "HOL-Library.Multiset"
begin

section \<open>Integers and their decimal text\<close>

text \<open>
  The program is built for linux/amd64 and linux/arm64, where Go's \<open>int\<close> has 64 bits:
  \<open>+\<close> and \<open>-\<close> wrap around, comparisons read the value as two's complement
  (\<open>sint\<close>).
\<close>

type_synonym go_int = "64 word"

datatype num_error = ErrSyntax | ErrRange

text \<open>
  \<open>strconv.Atoi\<close>, base 10: one optional sign, then at least one ASCII digit and
  nothing else; the magnitude is accumulated digit by digit in 64 unsigned bits
  (\<open>ErrRange\<close> as soon as it no longer fits) and must fit the signed range in the end.
  The library's fast path for short strings computes the same result.
\<close>

definition isDigit :: "char \<Rightarrow> bool" where
  "isDigit c = (48 \<le> (of_char c :: nat) \<and> (of_char c :: nat) \<le> 57)"

fun parseUint :: "string \<Rightarrow> nat \<Rightarrow> num_error + nat" where
  "parseUint [] n = Inr n"
| "parseUint (c # cs) n =
     (if \<not> isDigit c then Inl ErrSyntax
      else if 2 ^ 64 \<le> n * 10 + (of_char c - 48) then Inl ErrRange
      else parseUint cs (n * 10 + (of_char c - 48)))"

definition Atoi :: "string \<Rightarrow> num_error + go_int" where
  "Atoi s =
     (if s = [] then Inl ErrSyntax
      else let neg = (hd s = CHR ''-'');
               ds = (if hd s = CHR ''+'' \<or> hd s = CHR ''-'' then tl s else s)
           in if ds = [] then Inl ErrSyntax
              else case parseUint ds 0 of
                     Inl e \<Rightarrow> Inl e
                   | Inr un \<Rightarrow>
                       if \<not> neg \<and> 2 ^ 63 \<le> un then Inl ErrRange
                       else if neg \<and> 2 ^ 63 < un then Inl ErrRange
                       else Inr (if neg then - word_of_nat un else word_of_nat un))"

text \<open>
  \<open>strconv.Itoa\<close> (and \<open>%d\<close> of \<open>fmt\<close>, which prints the same text): a minus sign
  for a negative value, then the digits of the magnitude, taken from the digit table.
\<close>

definition digitChar :: "nat \<Rightarrow> char" where
  "digitChar d = ''0123456789'' ! d"

fun showNat :: "nat \<Rightarrow> string" where
  "showNat n =
     (if n < 10 then [digitChar n] else showNat (n div 10) @ [digitChar (n mod 10)])"

declare showNat.simps [simp del]

definition Itoa :: "go_int \<Rightarrow> string" where
  "Itoa i =
     (if sint i < 0 then CHR ''-'' # showNat (nat (- sint i)) else showNat (nat (sint i)))"

text \<open>
  What the specification calls a valid base-10 integer, as a predicate on the text
  alone (no range): an optional sign followed by one or more decimal digits.
\<close>

definition specValidBase10 :: "string \<Rightarrow> bool" where
  "specValidBase10 s =
     (let ds = (if s \<noteq> [] \<and> (hd s = CHR ''+'' \<or> hd s = CHR ''-'') then tl s else s)
      in ds \<noteq> [] \<and> list_all isDigit ds)"


section \<open>Errors\<close>

text \<open>
  The \<open>error\<close> values the program handles. \<open>StatusError\<close> is an API status of the
  record store with its reason, \<open>OtherError\<close> any other failure of the store's
  client (transport, timeout) with its text, \<open>NumError\<close> the failure of
  \<open>strconv.Atoi\<close> on a text, \<open>Errorf\<close> a \<open>fmt.Errorf\<close> with its rendered text, and
  \<open>Wrap\<close> is \<open>trace.Wrap(err, format, args...)\<close>.
\<close>

datatype status_reason =
    StatusReasonConflict
  | StatusReasonNotFound
  | StatusReasonBadRequest
  | StatusReasonForbidden

datatype error =
    StatusError status_reason
  | OtherError string
  | NumError num_error string
  | Errorf string
  | Wrap error string "string list"

text \<open>
  \<open>errors.IsConflict\<close> of apimachinery: the reason of the API status found by
  unwrapping the error (\<open>errors.As\<close>); a \<open>trace\<close> wrapper unwraps to the error
  it holds.
\<close>

fun IsConflict :: "error \<Rightarrow> bool" where
  "IsConflict (StatusError r) = (r = StatusReasonConflict)"
| "IsConflict (Wrap e f args) = IsConflict e"
| "IsConflict (OtherError m) = False"
| "IsConflict (NumError e s) = False"
| "IsConflict (Errorf m) = False"


section \<open>The HTTP response\<close>

text \<open>
  The diagnostic texts the handlers pass to \<open>http.Error\<close>, by name, with the
  arguments of the formatted ones:
  \<^item> \<open>MethodNotAllowed\<close>: "Method not allowed";
  \<^item> \<open>MissingPodName\<close>: "Missing pod_name query parameter";
  \<^item> \<open>FailedToListPods err\<close>: "Failed to list pods: %v" of \<open>err\<close>;
  \<^item> \<open>PodNotFound\<close>: "Pod not found";
  \<^item> \<open>InvalidLabelValue l v\<close>: "Invalid %q label value: %q" of the label name and
    the value;
  \<^item> \<open>FailedToUpdatePodLabel\<close>: "Failed to update pod label".
\<close>

datatype message =
    MethodNotAllowed
  | MissingPodName
  | FailedToListPods error
  | PodNotFound
  | InvalidLabelValue string string
  | FailedToUpdatePodLabel

text \<open>
  What has been written to the body, in order: \<open>ErrorLine m\<close> is the text
  of \<open>m\<close> and a newline (\<open>http.Error\<close>), \<open>Text s\<close> the bytes \<open>s\<close>.
\<close>

datatype chunk = ErrorLine message | Text string

text \<open>
  An \<open>http.ResponseWriter\<close>: \<open>status\<close> is \<open>None\<close> until the header is written.
  The first \<open>WriteHeader\<close> fixes the status code, a later one is ignored; a
  \<open>Write\<close> before any \<open>WriteHeader\<close> sends 200 first.
\<close>

record responseWriter =
  status :: "nat option"
  body :: "chunk list"

definition newResponseWriter :: responseWriter where
  "newResponseWriter = \<lparr>status = None, body = []\<rparr>"

definition WriteHeader :: "nat \<Rightarrow> responseWriter \<Rightarrow> responseWriter" where
  "WriteHeader code w = (case status w of None \<Rightarrow> w\<lparr>status := Some code\<rparr> | Some c \<Rightarrow> w)"

definition Write :: "chunk \<Rightarrow> responseWriter \<Rightarrow> responseWriter" where
  "Write c w = (let w' = WriteHeader 200 w in w'\<lparr>body := body w' @ [c]\<rparr>)"

definition http_Error :: "responseWriter \<Rightarrow> message \<Rightarrow> nat \<Rightarrow> responseWriter" where
  "http_Error w m code = Write (ErrorLine m) (WriteHeader code w)"

text \<open>\<open>fmt.Fprintf(w, "%d", v)\<close>.\<close>

definition Fprintf_d :: "responseWriter \<Rightarrow> go_int \<Rightarrow> responseWriter" where
  "Fprintf_d w v = Write (Text (Itoa v)) w"

text \<open>The request, as far as the handlers read it: the method and the query.\<close>

record request =
  Method :: string
  Query :: "(string \<times> string) list"

text \<open>\<open>r.URL.Query().Get(key)\<close>: the first value of the key, or the empty string.\<close>

definition queryGet :: "request \<Rightarrow> string \<Rightarrow> string" where
  "queryGet r key = (case map_of (Query r) key of None \<Rightarrow> [] | Some v \<Rightarrow> v)"


section \<open>Records of the store and its client\<close>

text \<open>
  A pod, as far as the program reads or writes it: the name, the namespace, the
  labels (a nil map reads as the empty map) and the version token of its metadata.
\<close>

record pod =
  Name :: string
  Namespace :: string
  Labels :: "string \<rightharpoonup> string"
  ResourceVersion :: nat

record listOptions =
  FieldSelector :: string
  LabelSelector :: string
  Limit :: nat

text \<open>
  The two calls the program makes on the clientset, \<open>Pods(ns).List(ctx, opts)\<close> and
  \<open>Pods(ns).Update(ctx, pod, opts)\<close>, as functions on the state \<open>'st\<close> of the world
  behind the client.
\<close>

record 'st clientset =
  podsList :: "string \<Rightarrow> listOptions \<Rightarrow> 'st \<Rightarrow> (error + pod list) \<times> 'st"
  podsUpdate :: "string \<Rightarrow> pod \<Rightarrow> 'st \<Rightarrow> (error + pod) \<times> 'st"


section \<open>The webhook server\<close>

record webhookServer =
  namespace :: string
  labelSelector :: string
  address :: string
  label :: string
  removeOnZero :: bool
  allowNegative :: bool

text \<open>The defaults of \<open>configureFlags\<close>.\<close>

definition defaultFlags :: webhookServer where
  "defaultFlags =
     \<lparr>namespace = ''default'', labelSelector = [], address = ''0.0.0.0:8080'',
      label = ''active-jobs'', removeOnZero = True, allowNegative = False\<rparr>"

text \<open>The callbacks of \<open>buildIncrementHandler\<close> and \<open>buildDecrementHandler\<close>.\<close>

definition incrementCallback :: "go_int \<Rightarrow> go_int" where
  "incrementCallback currentValue = currentValue + 1"

definition decrementCallback :: "webhookServer \<Rightarrow> go_int \<Rightarrow> go_int" where
  "decrementCallback ws currentValue =
     (if \<not> allowNegative ws \<and> sint currentValue \<le> 0 then 0 else currentValue - 1)"

text \<open>
  \<open>updateLabel\<close>, first half (the list call up to the label mutated in memory).
  \<open>readLabel\<close> is the lookup and \<open>strconv.Atoi\<close>, with 0 for an absent label;
  \<open>setLabel\<close> is the delete-or-set of the new value on the fetched pod.
\<close>

definition readLabel :: "webhookServer \<Rightarrow> pod \<Rightarrow> (num_error \<times> string) + go_int" where
  "readLabel ws p =
     (case Labels p (label ws) of
        None \<Rightarrow> Inr 0
      | Some valueStr \<Rightarrow>
          (case Atoi valueStr of Inl e \<Rightarrow> Inl (e, valueStr) | Inr labelValue \<Rightarrow> Inr labelValue))"

definition setLabel :: "webhookServer \<Rightarrow> go_int \<Rightarrow> pod \<Rightarrow> pod" where
  "setLabel ws newValue p =
     (if newValue = 0 \<and> removeOnZero ws
      then p\<lparr>Labels := (Labels p)(label ws := None)\<rparr>
      else p\<lparr>Labels := (Labels p)(label ws \<mapsto> Itoa newValue)\<rparr>)"

definition listOptionsFor :: "webhookServer \<Rightarrow> string \<Rightarrow> listOptions" where
  "listOptionsFor ws podName =
     \<lparr>FieldSelector = ''metadata.name='' @ podName, LabelSelector = labelSelector ws,
      Limit = 1\<rparr>"

definition fetchAndCompute ::
  "webhookServer \<Rightarrow> 'st clientset \<Rightarrow> string \<Rightarrow> (go_int \<Rightarrow> go_int) \<Rightarrow>
     responseWriter \<Rightarrow> 'st \<Rightarrow> (error + pod \<times> go_int) \<times> responseWriter \<times> 'st" where
  "fetchAndCompute ws clientset podName callback w st =
     (case podsList clientset (namespace ws) (listOptionsFor ws podName) st of
        (Inl err, st1) \<Rightarrow>
          (Inl (Wrap err ''failed to list pods'' []),
           http_Error w (FailedToListPods err) 500, st1)
      | (Inr items, st1) \<Rightarrow>
          (case items of
             [] \<Rightarrow>
               (Inl (Errorf (''pod '' @ podName @ '' not found in namespace '' @ namespace ws)),
                http_Error w PodNotFound 404, st1)
           | p # rest \<Rightarrow>
               (case readLabel ws p of
                  Inl (e, valueStr) \<Rightarrow>
                    (Inl (Wrap (NumError e valueStr) ''invalid %q label value: %q''
                            [label ws, valueStr]),
                     http_Error w (InvalidLabelValue (label ws) valueStr) 500, st1)
                | Inr labelValue \<Rightarrow>
                    (let newValue = callback labelValue
                     in (Inr (setLabel ws newValue p, newValue), w, st1)))))"

text \<open>\<open>updateLabel\<close>, second half: the update call and the response.\<close>

definition writeBack ::
  "'st clientset \<Rightarrow> pod \<Rightarrow> go_int \<Rightarrow> responseWriter \<Rightarrow> 'st \<Rightarrow>
     error option \<times> responseWriter \<times> 'st" where
  "writeBack clientset p newValue w st =
     (case podsUpdate clientset (Namespace p) p st of
        (Inl err, st2) \<Rightarrow>
          (Some (Wrap err ''failed to update pod label'' []),
           http_Error w FailedToUpdatePodLabel 500, st2)
      | (Inr updated, st2) \<Rightarrow> (None, Fprintf_d w newValue, st2))"

definition updateLabel ::
  "webhookServer \<Rightarrow> 'st clientset \<Rightarrow> string \<Rightarrow> (go_int \<Rightarrow> go_int) \<Rightarrow>
     responseWriter \<Rightarrow> 'st \<Rightarrow> error option \<times> responseWriter \<times> 'st" where
  "updateLabel ws clientset podName callback w st =
     (case fetchAndCompute ws clientset podName callback w st of
        (Inl err, w1, st1) \<Rightarrow> (Some err, w1, st1)
      | (Inr (p, newValue), w1, st1) \<Rightarrow> writeBack clientset p newValue w1 st1)"

text \<open>
  \<open>retry.RetryOnConflict(backoff, fn)\<close> of client-go, with \<open>steps\<close> the \<open>Steps\<close> of
  the backoff: \<open>fn\<close> runs until it returns no error, an error that is not a
  conflict, or the steps are used up, and then the last conflict is the result.
  \<open>lastErr\<close> is the variable of that name in \<open>retry.OnError\<close>, nil at the start.
  The sleeps between the runs are not part of the model. \<open>retry.DefaultBackoff\<close> has
  four steps.
\<close>

fun RetryOnConflict ::
  "nat \<Rightarrow> error option \<Rightarrow> (responseWriter \<Rightarrow> 'st \<Rightarrow> error option \<times> responseWriter \<times> 'st) \<Rightarrow>
     responseWriter \<Rightarrow> 'st \<Rightarrow> error option \<times> responseWriter \<times> 'st" where
  "RetryOnConflict 0 lastErr fn w st = (lastErr, w, st)"
| "RetryOnConflict (Suc steps) lastErr fn w st =
     (case fn w st of
        (None, w1, st1) \<Rightarrow> (None, w1, st1)
      | (Some err, w1, st1) \<Rightarrow>
          if IsConflict err then RetryOnConflict steps (Some err) fn w1 st1
          else (Some err, w1, st1))"

definition DefaultBackoff_Steps :: nat where
  "DefaultBackoff_Steps = 4"

text \<open>
  The engine invocation of a handler: the call of \<open>RetryOnConflict\<close> in
  \<open>updateLabelRequest\<close>, with the error it returns.
\<close>

definition retryUpdateLabel ::
  "webhookServer \<Rightarrow> 'st clientset \<Rightarrow> string \<Rightarrow> (go_int \<Rightarrow> go_int) \<Rightarrow>
     responseWriter \<Rightarrow> 'st \<Rightarrow> error option \<times> responseWriter \<times> 'st" where
  "retryUpdateLabel ws clientset podName callback w st =
     RetryOnConflict DefaultBackoff_Steps None (updateLabel ws clientset podName callback) w st"

text \<open>\<open>updateLabelRequest\<close> drops that error.\<close>

definition updateLabelRequest ::
  "webhookServer \<Rightarrow> responseWriter \<Rightarrow> request \<Rightarrow> 'st clientset \<Rightarrow> (go_int \<Rightarrow> go_int) \<Rightarrow>
     'st \<Rightarrow> responseWriter \<times> 'st" where
  "updateLabelRequest ws w r clientset callback st =
     (if Method r \<noteq> ''POST'' then (http_Error w MethodNotAllowed 405, st)
      else let podName = queryGet r ''pod_name''
           in if podName = [] then (http_Error w MissingPodName 400, st)
              else snd (retryUpdateLabel ws clientset podName callback w st))"

definition buildIncrementHandler ::
  "webhookServer \<Rightarrow> 'st clientset \<Rightarrow> responseWriter \<Rightarrow> request \<Rightarrow> 'st \<Rightarrow> responseWriter \<times> 'st" where
  "buildIncrementHandler ws clientset w r st =
     updateLabelRequest ws w r clientset incrementCallback st"

definition buildDecrementHandler ::
  "webhookServer \<Rightarrow> 'st clientset \<Rightarrow> responseWriter \<Rightarrow> request \<Rightarrow> 'st \<Rightarrow> responseWriter \<times> 'st" where
  "buildDecrementHandler ws clientset w r st =
     updateLabelRequest ws w r clientset (decrementCallback ws) st"


text \<open>
  The retry budget is exhausted when each of the next \<open>n\<close> runs of \<open>fn\<close> ends in a
  conflict.
\<close>

fun allConflicts ::
  "nat \<Rightarrow> (responseWriter \<Rightarrow> 'st \<Rightarrow> error option \<times> responseWriter \<times> 'st) \<Rightarrow>
     responseWriter \<Rightarrow> 'st \<Rightarrow> bool" where
  "allConflicts 0 fn w st = True"
| "allConflicts (Suc n) fn w st =
     (case fn w st of
        (None, w1, st1) \<Rightarrow> False
      | (Some err, w1, st1) \<Rightarrow> IsConflict err \<and> allConflicts n fn w1 st1)"

section \<open>A record store behind the client\<close>

text \<open>
  The record store is outside the program. This is the store the specification
  describes, in the manner of client-go's fake clientset: objects keyed by namespace
  and name, a list call that filters by exact name and by the label selector and caps
  the result, and an update that is rejected with a conflict unless the submitted
  version token is the stored one. The language of label selectors belongs to the
  store: \<open>matches\<close> decides whether a selector accepts a label map. The list call
  understands the one field selector the program builds.

  \<open>actions\<close> records every call served. \<open>pending\<close> scripts what else happens in the
  world: before each call is served its next entry applies, \<open>Quiet\<close> for nothing,
  \<open>Outage\<close> for a call that fails without reaching the store, \<open>Touch ns name\<close> for
  another writer updating the named object (which gives it a new version).
\<close>

type_synonym objects = "string \<times> string \<rightharpoonup> pod"

datatype action = ListAction string listOptions | UpdateAction string pod

datatype interference = Quiet | Outage | Touch string string

record world =
  objects :: objects
  actions :: "action list"
  pending :: "interference list"

definition storeList ::
  "(string \<Rightarrow> (string \<rightharpoonup> string) \<Rightarrow> bool) \<Rightarrow> objects \<Rightarrow> string \<Rightarrow> listOptions \<Rightarrow>
     error + pod list" where
  "storeList matches objs ns opts =
     (if take 14 (FieldSelector opts) \<noteq> ''metadata.name='' then
        Inl (StatusError StatusReasonBadRequest)
      else
        (let found =
           (case objs (ns, drop 14 (FieldSelector opts)) of
              None \<Rightarrow> []
            | Some p \<Rightarrow> if matches (LabelSelector opts) (Labels p) then [p] else [])
         in Inr (if Limit opts = 0 then found else take (Limit opts) found)))"

definition storeUpdate :: "objects \<Rightarrow> string \<Rightarrow> pod \<Rightarrow> (error + pod) \<times> objects" where
  "storeUpdate objs ns p =
     (if Namespace p \<noteq> ns then (Inl (StatusError StatusReasonBadRequest), objs)
      else
        (case objs (ns, Name p) of
           None \<Rightarrow> (Inl (StatusError StatusReasonNotFound), objs)
         | Some q \<Rightarrow>
             if ResourceVersion p \<noteq> ResourceVersion q then
               (Inl (StatusError StatusReasonConflict), objs)
             else
               (let p' = p\<lparr>ResourceVersion := Suc (ResourceVersion q)\<rparr>
                in (Inr p', objs((ns, Name p) \<mapsto> p')))))"

definition touch :: "string \<times> string \<Rightarrow> objects \<Rightarrow> objects" where
  "touch k objs =
     (case objs k of
        None \<Rightarrow> objs
      | Some p \<Rightarrow> objs(k \<mapsto> p\<lparr>ResourceVersion := Suc (ResourceVersion p)\<rparr>))"

text \<open>The next scripted event applies; the result says whether the call fails.\<close>

definition interfere :: "world \<Rightarrow> bool \<times> world" where
  "interfere wd =
     (case pending wd of
        [] \<Rightarrow> (False, wd)
      | Quiet # rest \<Rightarrow> (False, wd\<lparr>pending := rest\<rparr>)
      | Outage # rest \<Rightarrow> (True, wd\<lparr>pending := rest\<rparr>)
      | Touch ns name # rest \<Rightarrow>
          (False, wd\<lparr>objects := touch (ns, name) (objects wd), pending := rest\<rparr>))"

definition fakeList ::
  "(string \<Rightarrow> (string \<rightharpoonup> string) \<Rightarrow> bool) \<Rightarrow> string \<Rightarrow> listOptions \<Rightarrow> world \<Rightarrow>
     (error + pod list) \<times> world" where
  "fakeList matches ns opts wd =
     (case interfere (wd\<lparr>actions := actions wd @ [ListAction ns opts]\<rparr>) of
        (True, wd1) \<Rightarrow> (Inl (OtherError ''connection refused''), wd1)
      | (False, wd1) \<Rightarrow> (storeList matches (objects wd1) ns opts, wd1))"

definition fakeUpdate :: "string \<Rightarrow> pod \<Rightarrow> world \<Rightarrow> (error + pod) \<times> world" where
  "fakeUpdate ns p wd =
     (case interfere (wd\<lparr>actions := actions wd @ [UpdateAction ns p]\<rparr>) of
        (True, wd1) \<Rightarrow> (Inl (OtherError ''connection refused''), wd1)
      | (False, wd1) \<Rightarrow>
          (case storeUpdate (objects wd1) ns p of
             (res, objs) \<Rightarrow> (res, wd1\<lparr>objects := objs\<rparr>)))"

definition fakeClientset ::
  "(string \<Rightarrow> (string \<rightharpoonup> string) \<Rightarrow> bool) \<Rightarrow> world clientset" where
  "fakeClientset matches = \<lparr>podsList = fakeList matches, podsUpdate = fakeUpdate\<rparr>"

text \<open>
  A small selector language for concrete runs: the empty selector accepts every
  object, any other text \<open>v\<close> accepts the objects labelled \<open>app=v\<close>.
\<close>

definition appSelector :: "string \<Rightarrow> (string \<rightharpoonup> string) \<Rightarrow> bool" where
  "appSelector sel labels = (sel = [] \<or> labels ''app'' = Some sel)"

text \<open>The counter a stored pod shows: the label read as the engine reads it.\<close>

definition storedCounter :: "webhookServer \<Rightarrow> objects \<Rightarrow> string \<Rightarrow> go_int option" where
  "storedCounter ws objs podName =
     (case objs (namespace ws, podName) of
        None \<Rightarrow> None
      | Some p \<Rightarrow> (case readLabel ws p of Inl e \<Rightarrow> None | Inr v \<Rightarrow> Some v))"


text \<open>
  The label a stored pod carries: \<open>None\<close> without the pod, \<open>Some None\<close> for a pod
  without the label. \<open>written ws v p\<close> is the pod the store holds once it has
  accepted the update of \<open>p\<close> to the value \<open>v\<close>.
\<close>

definition storedLabel :: "world \<Rightarrow> string \<Rightarrow> string \<Rightarrow> string \<Rightarrow> string option option" where
  "storedLabel wd ns name l = map_option (\<lambda>p. Labels p l) (objects wd (ns, name))"

definition written :: "webhookServer \<Rightarrow> go_int \<Rightarrow> pod \<Rightarrow> pod" where
  "written ws v p = (setLabel ws v p)\<lparr>ResourceVersion := Suc (ResourceVersion p)\<rparr>"


section \<open>Concurrent requests\<close>

text \<open>
  Several requests for the same pod are in flight against one store. A request that
  has passed the checks of \<open>updateLabelRequest\<close> is about to list (\<open>Listing\<close>),
  or holds the pod it mutated in memory and the new value and is about to update
  (\<open>Updating\<close>), or its call of \<open>RetryOnConflict\<close> has returned (\<open>Returned\<close>, with
  the error or nil). Between two calls on the store a request touches nothing
  shared, so a step of a request is one half of \<open>updateLabel\<close>: \<open>fetchAndCompute\<close>
  or \<open>writeBack\<close>, followed by the bookkeeping of \<open>RetryOnConflict\<close> when the attempt
  failed (\<open>attemptFailed\<close>: stop on an error that is not a conflict or when the
  steps are used up, list again otherwise). The requests share nothing but the
  store; the schedule names the request that takes the next step, in any order.
\<close>

datatype phase = Listing | Updating pod go_int | Returned "error option"

record task =
  taskPhase :: phase
  stepsLeft :: nat
  lastConflict :: "error option"
  taskResponse :: responseWriter

definition newTask :: task where
  "newTask =
     \<lparr>taskPhase = Listing, stepsLeft = DefaultBackoff_Steps, lastConflict = None,
      taskResponse = newResponseWriter\<rparr>"

definition attemptFailed :: "error \<Rightarrow> task \<Rightarrow> task" where
  "attemptFailed err t =
     (if \<not> IsConflict err then t\<lparr>taskPhase := Returned (Some err)\<rparr>
      else if stepsLeft t \<le> 1 then
        t\<lparr>taskPhase := Returned (Some err), stepsLeft := 0, lastConflict := Some err\<rparr>
      else t\<lparr>taskPhase := Listing, stepsLeft := stepsLeft t - 1, lastConflict := Some err\<rparr>)"

definition taskStep ::
  "webhookServer \<Rightarrow> 'st clientset \<Rightarrow> string \<Rightarrow> (go_int \<Rightarrow> go_int) \<Rightarrow> task \<Rightarrow> 'st \<Rightarrow>
     task \<times> 'st" where
  "taskStep ws clientset podName callback t st =
     (case taskPhase t of
        Returned res \<Rightarrow> (t, st)
      | Listing \<Rightarrow>
          (case fetchAndCompute ws clientset podName callback (taskResponse t) st of
             (Inl err, w1, st1) \<Rightarrow> (attemptFailed err (t\<lparr>taskResponse := w1\<rparr>), st1)
           | (Inr (p, newValue), w1, st1) \<Rightarrow>
               (t\<lparr>taskPhase := Updating p newValue, taskResponse := w1\<rparr>, st1))
      | Updating p newValue \<Rightarrow>
          (case writeBack clientset p newValue (taskResponse t) st of
             (None, w2, st2) \<Rightarrow> (t\<lparr>taskPhase := Returned None, taskResponse := w2\<rparr>, st2)
           | (Some err, w2, st2) \<Rightarrow> (attemptFailed err (t\<lparr>taskResponse := w2\<rparr>), st2)))"

record 'st system =
  tasks :: "task list"
  store :: 'st

definition systemStep ::
  "webhookServer \<Rightarrow> 'st clientset \<Rightarrow> string \<Rightarrow> (go_int \<Rightarrow> go_int) \<Rightarrow> nat \<Rightarrow> 'st system \<Rightarrow>
     'st system" where
  "systemStep ws clientset podName callback i sys =
     (if i < length (tasks sys) then
        (case taskStep ws clientset podName callback (tasks sys ! i) (store sys) of
           (t, st) \<Rightarrow> \<lparr>tasks = (tasks sys)[i := t], store = st\<rparr>)
      else sys)"

fun run ::
  "webhookServer \<Rightarrow> 'st clientset \<Rightarrow> string \<Rightarrow> (go_int \<Rightarrow> go_int) \<Rightarrow> nat list \<Rightarrow> 'st system \<Rightarrow>
     'st system" where
  "run ws clientset podName callback [] sys = sys"
| "run ws clientset podName callback (i # schedule) sys =
     run ws clientset podName callback schedule (systemStep ws clientset podName callback i sys)"


text \<open>A request taking \<open>k\<close> steps with nothing else running.\<close>

definition alone ::
  "webhookServer \<Rightarrow> 'st clientset \<Rightarrow> string \<Rightarrow> (go_int \<Rightarrow> go_int) \<Rightarrow> nat \<Rightarrow> task \<times> 'st \<Rightarrow>
     task \<times> 'st" where
  "alone ws clientset podName callback k =
     (\<lambda>(t, st). taskStep ws clientset podName callback t st) ^^ k"

text \<open>
  A request has succeeded when its engine invocation returned nil; what it answered is
  the last chunk of its response. \<open>answers v0 n\<close> are the texts of the values
  \<open>v0 + 1\<close>, ..., \<open>v0 + n\<close>.
\<close>

definition succeeded :: "task \<Rightarrow> bool" where
  "succeeded t = (taskPhase t = Returned None)"

definition answered :: "task \<Rightarrow> chunk" where
  "answered t = last (body (taskResponse t))"

definition answers :: "go_int \<Rightarrow> nat \<Rightarrow> chunk list" where
  "answers v0 n = map (\<lambda>k. Text (Itoa (v0 + of_nat k))) [1..<Suc n]"

text \<open>
  What the increments keep true of the requests and the stored pod \<open>p\<close>, with \<open>cur\<close>
  the counter \<open>p\<close> shows: a request about to update holds a pod of the same name
  and namespace that is not newer than \<open>p\<close>, and if it is as new as \<open>p\<close> the value
  it is about to write is \<open>cur + 1\<close>, which is what its pod shows. \<open>later p p1\<close>
  says that \<open>p1\<close> is \<open>p\<close> after updates of other writers that left the labels
  alone. \<open>consistent\<close> adds that the stored pod shows the start value plus the
  number of requests that succeeded, and that these answered one value each.
\<close>

definition later :: "pod \<Rightarrow> pod \<Rightarrow> bool" where
  "later p p1 = (Name p1 = Name p \<and> Namespace p1 = Namespace p \<and> Labels p1 = Labels p \<and>
     ResourceVersion p \<le> ResourceVersion p1)"

definition snapshotOk :: "webhookServer \<Rightarrow> string \<Rightarrow> go_int \<Rightarrow> pod \<Rightarrow> task \<Rightarrow> bool" where
  "snapshotOk ws podName cur p t =
     (case taskPhase t of
        Listing \<Rightarrow> True
      | Updating q nv \<Rightarrow>
          Name q = podName \<and> Namespace q = namespace ws \<and>
          ResourceVersion q \<le> ResourceVersion p \<and>
          (ResourceVersion q = ResourceVersion p \<longrightarrow> nv = cur + 1 \<and> readLabel ws q = Inr nv)
      | Returned res \<Rightarrow> True)"

definition consistent :: "webhookServer \<Rightarrow> string \<Rightarrow> go_int \<Rightarrow> world system \<Rightarrow> bool" where
  "consistent ws podName v0 sys =
     (\<exists>p. objects (store sys) (namespace ws, podName) = Some p \<and> Name p = podName \<and>
          Namespace p = namespace ws \<and>
          readLabel ws p = Inr (v0 + of_nat (length (filter succeeded (tasks sys)))) \<and>
          (\<forall>t \<in> set (tasks sys).
             snapshotOk ws podName (v0 + of_nat (length (filter succeeded (tasks sys)))) p t) \<and>
          mset (map answered (filter succeeded (tasks sys))) =
            mset (answers v0 (length (filter succeeded (tasks sys)))))"

section \<open>Concrete inputs\<close>

text \<open>
  The pod \<open>job-1\<close> of the namespace \<open>default\<close>, without labels, alone in a store
  where nothing else happens, and a POST request that names it.
\<close>

definition job1 :: pod where
  "job1 = \<lparr>Name = ''job-1'', Namespace = ''default'', Labels = Map.empty, ResourceVersion = 7\<rparr>"

definition quietWorld :: "pod \<Rightarrow> world" where
  "quietWorld p = \<lparr>objects = [(Namespace p, Name p) \<mapsto> p], actions = [], pending = []\<rparr>"

definition postJob1 :: request where
  "postJob1 = \<lparr>Method = ''POST'', Query = [(''pod_name'', ''job-1'')]\<rparr>"


text \<open>The same pod with the counter label of the default flags set to a text.\<close>

definition job1At :: "string \<Rightarrow> pod" where
  "job1At v = job1\<lparr>Labels := [''active-jobs'' \<mapsto> v]\<rparr>"

text \<open>The default flags with remove-on-zero off, and with allow-negative on as well.\<close>

definition keepZeroFlags :: webhookServer where
  "keepZeroFlags = defaultFlags\<lparr>removeOnZero := False\<rparr>"

definition negativeFlags :: webhookServer where
  "negativeFlags = defaultFlags\<lparr>removeOnZero := False, allowNegative := True\<rparr>"


text \<open>A request for a pod that is not there, and flags whose selector excludes \<open>job-1\<close>.\<close>

definition postJob2 :: request where
  "postJob2 = \<lparr>Method = ''POST'', Query = [(''pod_name'', ''job-2'')]\<rparr>"

definition batchFlags :: webhookServer where
  "batchFlags = defaultFlags\<lparr>labelSelector := ''batch''\<rparr>"

text \<open>A world with a script of events, and another writer touching \<open>job-1\<close>.\<close>

definition scriptedWorld :: "interference list \<Rightarrow> pod \<Rightarrow> world" where
  "scriptedWorld script p = (quietWorld p)\<lparr>pending := script\<rparr>"

definition touchJob1 :: interference where
  "touchJob1 = Touch ''default'' ''job-1''"


text \<open>
  A client whose list call finds \<open>job-1\<close> and whose update call fails with a given
  error, with no state behind it.
\<close>

definition refusingClientset :: "error \<Rightarrow> unit clientset" where
  "refusingClientset err =
     \<lparr>podsList = (\<lambda>ns opts st. (Inr [job1], st)), podsUpdate = (\<lambda>ns p st. (Inl err, st))\<rparr>"

text \<open>
  Two increments that race: the second lists and updates between the list call and
  the update of the first, which then meets a conflict and goes round again. And five
  increments of which the first meets a conflict on each of its four attempts, each
  time because another one has listed and updated in between.
\<close>

definition racedRun :: "world system" where
  "racedRun =
     run defaultFlags (fakeClientset appSelector) ''job-1'' incrementCallback
       [0, 1, 1, 0, 0, 0]
       \<lparr>tasks = [newTask, newTask], store = quietWorld job1\<rparr>"

definition starvedRun :: "world system" where
  "starvedRun =
     run defaultFlags (fakeClientset appSelector) ''job-1'' incrementCallback
       [0, 1, 1, 0, 0, 2, 2, 0, 0, 3, 3, 0, 0, 4, 4, 0]
       \<lparr>tasks = [newTask, newTask, newTask, newTask, newTask], store = quietWorld job1\<rparr>"

section \<open>Decimal text: parsing what was printed\<close>

lemma digitChar_props:
  assumes "d < 10"
  shows "isDigit (digitChar d)" and "(of_char (digitChar d) :: nat) - 48 = d"
proof -
  from assms have "d = 0 \<or> d = 1 \<or> d = 2 \<or> d = 3 \<or> d = 4 \<or> d = 5 \<or> d = 6 \<or> d = 7 \<or> d = 8 \<or> d = 9"
    by arith
  then show "isDigit (digitChar d)" and "(of_char (digitChar d) :: nat) - 48 = d"
    by (auto simp: isDigit_def digitChar_def)
qed

lemma isDigit_not_sign: "isDigit c \<Longrightarrow> c \<noteq> CHR ''+'' \<and> c \<noteq> CHR ''-''"
  by (auto simp: isDigit_def)

lemma parseUint_append:
  "parseUint (xs @ ys) n = (case parseUint xs n of Inl e \<Rightarrow> Inl e | Inr m \<Rightarrow> parseUint ys m)"
  by (induction xs arbitrary: n) auto

lemma parseUint_showNat: "n < 2 ^ 64 \<Longrightarrow> parseUint (showNat n) 0 = Inr n"
proof (induction n rule: showNat.induct)
  case (1 n)
  show ?case
  proof (cases "n < 10")
    case True
    with "1.prems" show ?thesis
      by (subst showNat.simps) (simp add: digitChar_props)
  next
    case False
    have small: "n div 10 < 2 ^ 64" using "1.prems" by simp
    have ih: "parseUint (showNat (n div 10)) 0 = Inr (n div 10)"
      using "1.IH" False small by simp
    have d: "n mod 10 < 10" by simp
    have recompose: "n div 10 * 10 + n mod 10 = n" by simp
    show ?thesis
      using False "1.prems"
      by (subst showNat.simps) (simp add: parseUint_append ih digitChar_props [OF d] recompose)
  qed
qed

lemma showNat_hd: "showNat n \<noteq> [] \<and> isDigit (hd (showNat n))"
proof (induction n rule: showNat.induct)
  case (1 n)
  show ?case
  proof (cases "n < 10")
    case True
    then show ?thesis by (subst (1 2) showNat.simps) (simp add: digitChar_props)
  next
    case False
    with "1.IH" show ?thesis by (subst (1 2) showNat.simps) simp
  qed
qed

lemma Atoi_Itoa: "Atoi (Itoa i) = Inr i"
proof (cases "sint i < 0")
  case True
  define m where "m = nat (- sint i)"
  have lo: "- (2 ^ 63) \<le> sint i" using sint_ge [of i] by simp
  have m63: "m \<le> 2 ^ 63" using lo True by (simp add: m_def)
  have m64: "m < 2 ^ 64" using m63 by simp
  have val: "- (word_of_nat m :: go_int) = i"
    using True by (simp add: m_def)
  show ?thesis
    using True m63 val showNat_hd [of m]
    by (simp add: Itoa_def Atoi_def parseUint_showNat [OF m64] m_def [symmetric])
next
  case False
  define m where "m = nat (sint i)"
  have hi: "sint i < 2 ^ 63" using sint_lt [of i] by simp
  have m63: "m < 2 ^ 63" using hi False by (simp add: m_def)
  have m64: "m < 2 ^ 64" using m63 by simp
  have val: "(word_of_nat m :: go_int) = i"
    using False by (simp add: m_def)
  show ?thesis
    using False m63 val showNat_hd [of m] isDigit_not_sign [of "hd (showNat m)"]
    by (simp add: Itoa_def Atoi_def parseUint_showNat [OF m64] m_def [symmetric])
qed

lemma Itoa_zero: "Itoa 0 = ''0''"
  by (simp add: Itoa_def showNat.simps digitChar_def)

lemma parseUint_not_digits:
  "\<not> list_all isDigit ds \<Longrightarrow> \<exists>e. parseUint ds n = Inl e"
  by (induction ds arbitrary: n) auto

lemma Atoi_invalid: "\<not> specValidBase10 s \<Longrightarrow> \<exists>e. Atoi s = Inl e"
proof (cases "s = []")
  case True
  then show ?thesis by (simp add: Atoi_def)
next
  case False
  assume bad: "\<not> specValidBase10 s"
  define ds where "ds = (if hd s = CHR ''+'' \<or> hd s = CHR ''-'' then tl s else s)"
  from bad False have "ds = [] \<or> \<not> list_all isDigit ds"
    by (auto simp: specValidBase10_def ds_def Let_def split: if_splits)
  then show ?thesis
  proof
    assume "ds = []"
    then show ?thesis using False by (auto simp: Atoi_def ds_def Let_def)
  next
    assume "\<not> list_all isDigit ds"
    then obtain e where "parseUint ds 0 = Inl e" using parseUint_not_digits by blast
    then show ?thesis using False by (auto simp: Atoi_def ds_def [symmetric] Let_def)
  qed
qed


section \<open>The engine, case by case\<close>

lemma Namespace_setLabel [simp]: "Namespace (setLabel ws v p) = Namespace p"
  and Name_setLabel [simp]: "Name (setLabel ws v p) = Name p"
  and ResourceVersion_setLabel [simp]: "ResourceVersion (setLabel ws v p) = ResourceVersion p"
  by (simp_all add: setLabel_def)

lemma Labels_setLabel:
  "Labels (setLabel ws v p) k =
     (if k = label ws then (if v = 0 \<and> removeOnZero ws then None else Some (Itoa v))
      else Labels p k)"
  by (simp add: setLabel_def)

lemma readLabel_setLabel: "readLabel ws (setLabel ws v p) = Inr v"
  by (simp add: readLabel_def setLabel_def Atoi_Itoa)

lemma fetchAndCompute_found:
  assumes "podsList clientset (namespace ws) (listOptionsFor ws podName) st = (Inr (p # rest), st1)"
    and "readLabel ws p = Inr labelValue"
  shows "fetchAndCompute ws clientset podName callback w st =
           (Inr (setLabel ws (callback labelValue) p, callback labelValue), w, st1)"
  using assms by (simp add: fetchAndCompute_def Let_def)

lemma updateLabel_found:
  assumes "podsList clientset (namespace ws) (listOptionsFor ws podName) st = (Inr (p # rest), st1)"
    and "readLabel ws p = Inr labelValue"
  shows "updateLabel ws clientset podName callback w st =
           writeBack clientset (setLabel ws (callback labelValue) p) (callback labelValue) w st1"
  using fetchAndCompute_found [OF assms] by (simp add: updateLabel_def)

lemma writeBack_accepted:
  "podsUpdate clientset (Namespace p) p st = (Inr updated, st2) \<Longrightarrow>
     writeBack clientset p v w st = (None, Fprintf_d w v, st2)"
  by (simp add: writeBack_def)

lemma status_WriteHeader:
  "status (WriteHeader code w) = (case status w of None \<Rightarrow> Some code | Some c \<Rightarrow> Some c)"
  by (simp add: WriteHeader_def split: option.splits)

lemma status_Write:
  "status (Write c w) = (case status w of None \<Rightarrow> Some 200 | Some c \<Rightarrow> Some c)"
  by (simp add: Write_def Let_def status_WriteHeader split: option.splits)

lemma status_http_Error:
  "status (http_Error w m code) = (case status w of None \<Rightarrow> Some code | Some c \<Rightarrow> Some c)"
  by (simp add: http_Error_def status_Write status_WriteHeader split: option.splits)

lemma status_Fprintf_d:
  "status (Fprintf_d w v) = (case status w of None \<Rightarrow> Some 200 | Some c \<Rightarrow> Some c)"
  by (simp add: Fprintf_d_def status_Write)

lemma RetryOnConflict_final:
  assumes "fn w st = (Some err, w1, st1)" and "\<not> IsConflict err"
  shows "RetryOnConflict (Suc n) lastErr fn w st = (Some err, w1, st1)"
  using assms by simp

lemma retryUpdateLabel_final:
  assumes "updateLabel ws clientset podName callback w st = (Some err, w1, st1)"
    and "\<not> IsConflict err"
  shows "retryUpdateLabel ws clientset podName callback w st = (Some err, w1, st1)"
  using assms by (simp add: retryUpdateLabel_def DefaultBackoff_Steps_def numeral_eq_Suc)

lemma updateLabel_list_failed:
  assumes "podsList clientset (namespace ws) (listOptionsFor ws podName) st = (Inl err, st1)"
  shows "updateLabel ws clientset podName callback w st =
           (Some (Wrap err ''failed to list pods'' []), http_Error w (FailedToListPods err) 500, st1)"
  using assms by (simp add: updateLabel_def fetchAndCompute_def)

lemma updateLabel_none_listed:
  assumes "podsList clientset (namespace ws) (listOptionsFor ws podName) st = (Inr [], st1)"
  shows "updateLabel ws clientset podName callback w st =
           (Some (Errorf (''pod '' @ podName @ '' not found in namespace '' @ namespace ws)),
            http_Error w PodNotFound 404, st1)"
  using assms by (simp add: updateLabel_def fetchAndCompute_def)

lemma updateLabel_corrupt:
  assumes "podsList clientset (namespace ws) (listOptionsFor ws podName) st = (Inr (p # rest), st1)"
    and "readLabel ws p = Inl (e, valueStr)"
  shows "updateLabel ws clientset podName callback w st =
           (Some (Wrap (NumError e valueStr) ''invalid %q label value: %q'' [label ws, valueStr]),
            http_Error w (InvalidLabelValue (label ws) valueStr) 500, st1)"
  using assms by (simp add: updateLabel_def fetchAndCompute_def)

lemma writeBack_rejected:
  "podsUpdate clientset (Namespace p) p st = (Inl err, st2) \<Longrightarrow>
     writeBack clientset p v w st =
       (Some (Wrap err ''failed to update pod label'' []), http_Error w FailedToUpdatePodLabel 500, st2)"
  by (simp add: writeBack_def)

text \<open>Whatever an attempt returns, an error comes with an error response.\<close>

lemma updateLabel_cases:
  "(\<exists>p v st1 st2. updateLabel ws clientset podName callback w st = (None, Fprintf_d w v, st2))
   \<or> (\<exists>e m st'. updateLabel ws clientset podName callback w st = (Some e, http_Error w m 500, st'))
   \<or> (\<exists>e st'. updateLabel ws clientset podName callback w st = (Some e, http_Error w PodNotFound 404, st') \<and> \<not> IsConflict e)"
  by (auto simp: updateLabel_def fetchAndCompute_def writeBack_def Let_def
      split: prod.splits sum.splits list.splits option.splits)

lemma updateLabel_status_kept:
  assumes "status w = Some c" and "updateLabel ws clientset podName callback w st = (res, w1, st1)"
  shows "status w1 = Some c"
  using updateLabel_cases [of ws clientset podName callback w st] assms
  by (auto simp: status_http_Error status_Fprintf_d)

lemma updateLabel_conflict_status:
  assumes "status w = None" and "updateLabel ws clientset podName callback w st = (Some e, w1, st1)"
    and "IsConflict e"
  shows "status w1 = Some 500"
  using updateLabel_cases [of ws clientset podName callback w st] assms
  by (auto simp: status_http_Error status_Fprintf_d)

lemma RetryOnConflict_status_kept:
  assumes "status w = Some c"
    and "RetryOnConflict n lastErr (updateLabel ws clientset podName callback) w st = (res, w', st')"
  shows "status w' = Some c"
  using assms
proof (induction n arbitrary: lastErr w st)
  case 0
  then show ?case by simp
next
  case (Suc n)
  obtain r w1 st1 where step: "updateLabel ws clientset podName callback w st = (r, w1, st1)"
    by (cases "updateLabel ws clientset podName callback w st") auto
  have kept: "status w1 = Some c"
    using updateLabel_status_kept [OF Suc.prems(1) step] .
  show ?case
  proof (cases r)
    case None
    with Suc.prems(2) step kept show ?thesis by simp
  next
    case (Some e)
    show ?thesis
    proof (cases "IsConflict e")
      case True
      with Suc.prems(2) step Some
      have "RetryOnConflict n (Some e) (updateLabel ws clientset podName callback) w1 st1 = (res, w', st')"
        by simp
      from Suc.IH [OF kept this] show ?thesis .
    next
      case False
      with Suc.prems(2) step Some kept show ?thesis by simp
    qed
  qed
qed

lemma RetryOnConflict_exhausted:
  assumes "allConflicts n fn w st" and "lastErr = None \<longrightarrow> 0 < n"
    and "\<forall>e. lastErr = Some e \<longrightarrow> IsConflict e"
  shows "\<exists>e w' st'. RetryOnConflict n lastErr fn w st = (Some e, w', st') \<and> IsConflict e"
  using assms
proof (induction n arbitrary: lastErr w st)
  case 0
  then show ?case by auto
next
  case (Suc n)
  from Suc.prems(1) obtain err w1 st1 where
    step: "fn w st = (Some err, w1, st1)" and conflict: "IsConflict err"
    and later: "allConflicts n fn w1 st1"
    by (auto split: prod.splits option.splits)
  have "\<exists>e w' st'. RetryOnConflict n (Some err) fn w1 st1 = (Some e, w', st') \<and> IsConflict e"
    using Suc.IH [OF later, of "Some err"] conflict by simp
  then show ?case using step conflict by simp
qed

lemma updateLabelRequest_named:
  assumes "Method r = ''POST''" and "queryGet r ''pod_name'' = podName" and "podName \<noteq> []"
  shows "updateLabelRequest ws w r clientset callback st =
           snd (retryUpdateLabel ws clientset podName callback w st)"
  using assms by (simp add: updateLabelRequest_def Let_def)


section \<open>An attempt on a quiet store\<close>

lemma readLabel_written: "readLabel ws (written ws v p) = Inr v"
  using readLabel_setLabel [of ws v p] by (simp add: written_def readLabel_def)

lemma written_fields [simp]:
  "Name (written ws v p) = Name p" "Namespace (written ws v p) = Namespace p"
  "ResourceVersion (written ws v p) = Suc (ResourceVersion p)"
  "Labels (written ws v p) = Labels (setLabel ws v p)"
  by (simp_all add: written_def)

lemma quiet_attempt:
  assumes quiet: "pending wd = []"
    and stored: "objects wd (namespace ws, podName) = Some p"
    and name: "Name p = podName" and ns: "Namespace p = namespace ws"
    and accepted: "matches (labelSelector ws) (Labels p)"
    and current: "readLabel ws p = Inr v"
  shows "updateLabel ws (fakeClientset matches) podName callback w wd =
     (None, Fprintf_d w (callback v),
      wd\<lparr>objects := (objects wd)((namespace ws, podName) \<mapsto> written ws (callback v) p),
         actions := actions wd @
           [ListAction (namespace ws) (listOptionsFor ws podName),
            UpdateAction (namespace ws) (setLabel ws (callback v) p)]\<rparr>)"
proof -
  let ?wd1 = "wd\<lparr>actions := actions wd @ [ListAction (namespace ws) (listOptionsFor ws podName)]\<rparr>"
  have listed: "podsList (fakeClientset matches) (namespace ws) (listOptionsFor ws podName) wd =
      (Inr [p], ?wd1)"
    using quiet stored accepted
    by (simp add: fakeClientset_def fakeList_def interfere_def storeList_def listOptionsFor_def)
  have upd: "podsUpdate (fakeClientset matches) (Namespace (setLabel ws (callback v) p))
        (setLabel ws (callback v) p) ?wd1 =
      (Inr (written ws (callback v) p),
       wd\<lparr>objects := (objects wd)((namespace ws, podName) \<mapsto> written ws (callback v) p),
         actions := actions wd @
           [ListAction (namespace ws) (listOptionsFor ws podName),
            UpdateAction (namespace ws) (setLabel ws (callback v) p)]\<rparr>)"
    using quiet stored name ns
    by (simp add: fakeClientset_def fakeUpdate_def interfere_def storeUpdate_def Let_def written_def)
  show ?thesis
    by (simp add: updateLabel_found [OF listed current] writeBack_accepted [OF upd])
qed

lemma retryUpdateLabel_first:
  assumes "updateLabel ws clientset podName callback w st = (None, w1, st1)"
  shows "retryUpdateLabel ws clientset podName callback w st = (None, w1, st1)"
  using assms by (simp add: retryUpdateLabel_def DefaultBackoff_Steps_def numeral_eq_Suc)

lemma quiet_request:
  assumes post: "Method r = ''POST''"
    and named: "queryGet r ''pod_name'' = podName" and nonempty: "podName \<noteq> []"
    and quiet: "pending wd = []"
    and stored: "objects wd (namespace ws, podName) = Some p"
    and name: "Name p = podName" and ns: "Namespace p = namespace ws"
    and accepted: "matches (labelSelector ws) (Labels p)"
    and current: "readLabel ws p = Inr v"
  shows "updateLabelRequest ws w r (fakeClientset matches) callback wd =
     (Fprintf_d w (callback v),
      wd\<lparr>objects := (objects wd)((namespace ws, podName) \<mapsto> written ws (callback v) p),
         actions := actions wd @
           [ListAction (namespace ws) (listOptionsFor ws podName),
            UpdateAction (namespace ws) (setLabel ws (callback v) p)]\<rparr>)"
  by (simp add: updateLabelRequest_named [OF post named nonempty]
      retryUpdateLabel_first [OF quiet_attempt [where matches = matches, OF quiet stored name ns accepted current]])


section \<open>Unfolding the model on concrete inputs\<close>

lemma DefaultBackoff_Steps_Suc: "DefaultBackoff_Steps = Suc (Suc (Suc (Suc 0)))"
  by (simp add: DefaultBackoff_Steps_def)

lemmas engine_defs = buildIncrementHandler_def buildDecrementHandler_def updateLabelRequest_def
  retryUpdateLabel_def DefaultBackoff_Steps_Suc updateLabel_def fetchAndCompute_def writeBack_def
  readLabel_def setLabel_def listOptionsFor_def queryGet_def incrementCallback_def decrementCallback_def
  http_Error_def Write_def WriteHeader_def Fprintf_d_def newResponseWriter_def Let_def
lemmas store_defs = fakeClientset_def fakeList_def fakeUpdate_def interfere_def storeList_def storeUpdate_def touch_def
  appSelector_def storedCounter_def
lemmas conv_defs = Atoi_def Itoa_def isDigit_def digitChar_def showNat.simps
lemmas input_defs = defaultFlags_def job1_def quietWorld_def postJob1_def job1At_def
  keepZeroFlags_def negativeFlags_def postJob2_def batchFlags_def scriptedWorld_def touchJob1_def

lemma listed_job1:
  "podsList (fakeClientset appSelector) (namespace defaultFlags)
      (listOptionsFor defaultFlags ''job-1'') (quietWorld job1) =
    (Inr [job1],
     (quietWorld job1)\<lparr>actions := [ListAction ''default'' (listOptionsFor defaultFlags ''job-1'')]\<rparr>)"
  by (simp add: store_defs listOptionsFor_def input_defs)


section \<open>The floor of the decrement\<close>

text \<open>
  C3. Floor property. A decrement of a record whose current counter value is 0 (the
  label absent, or a text that parses to 0), with allow-negative off, computes the
  new value 0 inside the callback; the record submitted to the update has the counter
  label removed when remove-on-zero is on and set to "0" otherwise; and once the store
  accepts that update the call returns no error and prints 0.
\<close>

theorem decrement_floor:
  assumes listed: "podsList clientset (namespace ws) (listOptionsFor ws podName) st = (Inr (p # rest), st1)"
    and zero: "readLabel ws p = Inr 0"
    and floor: "\<not> allowNegative ws"
  shows "decrementCallback ws 0 = 0
     \<and> updateLabel ws clientset podName (decrementCallback ws) w st =
         writeBack clientset (setLabel ws 0 p) 0 w st1
     \<and> Labels (setLabel ws 0 p) (label ws) = (if removeOnZero ws then None else Some ''0'')
     \<and> (\<forall>updated st2. podsUpdate clientset (Namespace p) (setLabel ws 0 p) st1 = (Inr updated, st2) \<longrightarrow>
          updateLabel ws clientset podName (decrementCallback ws) w st = (None, Fprintf_d w 0, st2))"
proof -
  have cb: "decrementCallback ws 0 = 0"
    using floor by (simp add: decrementCallback_def)
  have upd: "updateLabel ws clientset podName (decrementCallback ws) w st =
         writeBack clientset (setLabel ws 0 p) 0 w st1"
    using updateLabel_found [OF listed zero, of "decrementCallback ws" w] by (simp add: cb)
  have lab: "Labels (setLabel ws 0 p) (label ws) = (if removeOnZero ws then None else Some ''0'')"
    by (simp add: Labels_setLabel Itoa_zero)
  have ok: "\<forall>updated st2. podsUpdate clientset (Namespace p) (setLabel ws 0 p) st1 = (Inr updated, st2) \<longrightarrow>
          updateLabel ws clientset podName (decrementCallback ws) w st = (None, Fprintf_d w 0, st2)"
    using upd writeBack_accepted [of clientset "setLabel ws 0 p"] by simp
  from cb upd lab ok show ?thesis by blast
qed

theorem decrement_floor_witness:
  "\<not> allowNegative defaultFlags \<and> readLabel defaultFlags job1 = Inr 0 \<and>
   decrementCallback defaultFlags 0 = 0 \<and>
   Labels (setLabel defaultFlags 0 job1) ''active-jobs'' = None \<and>
   updateLabel defaultFlags (fakeClientset appSelector) ''job-1'' (decrementCallback defaultFlags)
       newResponseWriter (quietWorld job1) =
     writeBack (fakeClientset appSelector) (setLabel defaultFlags 0 job1) 0 newResponseWriter
       ((quietWorld job1)\<lparr>actions := [ListAction ''default'' (listOptionsFor defaultFlags ''job-1'')]\<rparr>)"
proof -
  have zero: "readLabel defaultFlags job1 = Inr 0"
    by (simp add: readLabel_def input_defs)
  have floor: "\<not> allowNegative defaultFlags"
    by (simp add: defaultFlags_def)
  from decrement_floor [OF listed_job1 zero floor, of newResponseWriter] zero floor
  show ?thesis by (simp add: defaultFlags_def)
qed


section \<open>Remove on zero\<close>

text \<open>
  C4. Remove-on-zero policy. Whenever the decrement of a fetched record computes the
  new value 0, the record submitted to the update call has the counter label absent
  when remove-on-zero is on, and present with the text "0" when it is off; the other
  labels are the fetched ones.
\<close>

theorem remove_on_zero_policy:
  assumes listed: "podsList clientset (namespace ws) (listOptionsFor ws podName) st = (Inr (p # rest), st1)"
    and current: "readLabel ws p = Inr labelValue"
    and reaches_zero: "decrementCallback ws labelValue = 0"
  shows "updateLabel ws clientset podName (decrementCallback ws) w st =
           writeBack clientset (setLabel ws 0 p) 0 w st1
     \<and> writeBack clientset (setLabel ws 0 p) 0 w st1 =
           (case podsUpdate clientset (Namespace p) (setLabel ws 0 p) st1 of
              (Inl err, st2) \<Rightarrow>
                (Some (Wrap err ''failed to update pod label'' []),
                 http_Error w FailedToUpdatePodLabel 500, st2)
            | (Inr updated, st2) \<Rightarrow> (None, Fprintf_d w 0, st2))
     \<and> Labels (setLabel ws 0 p) (label ws) = (if removeOnZero ws then None else Some ''0'')
     \<and> (\<forall>k. k \<noteq> label ws \<longrightarrow> Labels (setLabel ws 0 p) k = Labels p k)"
proof -
  have upd: "updateLabel ws clientset podName (decrementCallback ws) w st =
           writeBack clientset (setLabel ws 0 p) 0 w st1"
    using updateLabel_found [OF listed current, of "decrementCallback ws" w]
    by (simp add: reaches_zero)
  have call: "writeBack clientset (setLabel ws 0 p) 0 w st1 =
           (case podsUpdate clientset (Namespace p) (setLabel ws 0 p) st1 of
              (Inl err, st2) \<Rightarrow>
                (Some (Wrap err ''failed to update pod label'' []),
                 http_Error w FailedToUpdatePodLabel 500, st2)
            | (Inr updated, st2) \<Rightarrow> (None, Fprintf_d w 0, st2))"
    by (simp add: writeBack_def)
  have lab: "Labels (setLabel ws 0 p) (label ws) = (if removeOnZero ws then None else Some ''0'')"
    by (simp add: Labels_setLabel Itoa_zero)
  have others: "\<forall>k. k \<noteq> label ws \<longrightarrow> Labels (setLabel ws 0 p) k = Labels p k"
    by (simp add: Labels_setLabel)
  from upd call lab others show ?thesis by blast
qed

theorem remove_on_zero_policy_witness:
  "readLabel defaultFlags (job1At ''1'') = Inr 1 \<and> decrementCallback defaultFlags 1 = 0 \<and>
   Labels (setLabel defaultFlags 0 (job1At ''1'')) ''active-jobs'' = None \<and>
   Labels (setLabel keepZeroFlags 0 (job1At ''1'')) ''active-jobs'' = Some ''0'' \<and>
   fst (updateLabel defaultFlags (fakeClientset appSelector) ''job-1'' (decrementCallback defaultFlags)
          newResponseWriter (quietWorld (job1At ''1''))) = None"
proof -
  let ?off = keepZeroFlags
  let ?wd = "quietWorld (job1At ''1'')"
  have listed: "podsList (fakeClientset appSelector) (namespace defaultFlags)
      (listOptionsFor defaultFlags ''job-1'') ?wd =
    (Inr [job1At ''1''], ?wd\<lparr>actions := [ListAction ''default'' (listOptionsFor defaultFlags ''job-1'')]\<rparr>)"
    by (simp add: store_defs listOptionsFor_def input_defs job1At_def)
  have listed': "podsList (fakeClientset appSelector) (namespace ?off)
      (listOptionsFor ?off ''job-1'') ?wd =
    (Inr [job1At ''1''], ?wd\<lparr>actions := [ListAction ''default'' (listOptionsFor ?off ''job-1'')]\<rparr>)"
    by (simp add: store_defs listOptionsFor_def input_defs job1At_def)
  have current: "readLabel defaultFlags (job1At ''1'') = Inr 1"
    by (simp add: readLabel_def input_defs job1At_def conv_defs)
  have current': "readLabel ?off (job1At ''1'') = Inr 1"
    by (simp add: readLabel_def input_defs job1At_def conv_defs)
  have zero: "decrementCallback defaultFlags 1 = 0"
    by (simp add: decrementCallback_def defaultFlags_def)
  have zero': "decrementCallback ?off 1 = 0"
    by (simp add: decrementCallback_def defaultFlags_def)
  have accepted: "fst (writeBack (fakeClientset appSelector) (setLabel defaultFlags 0 (job1At ''1'')) 0
           newResponseWriter
           (?wd\<lparr>actions := [ListAction ''default'' (listOptionsFor defaultFlags ''job-1'')]\<rparr>)) = None"
    by (simp add: writeBack_def setLabel_def store_defs input_defs job1At_def Let_def)
  from remove_on_zero_policy [OF listed current zero, of newResponseWriter]
    remove_on_zero_policy [OF listed' current' zero', of newResponseWriter]
    current zero accepted
  show ?thesis by (simp add: defaultFlags_def keepZeroFlags_def)
qed

section \<open>An absent label, and the increment\<close>

lemma sint_increment: "sint (v :: go_int) < 2 ^ 63 - 1 \<Longrightarrow> sint (v + 1) = sint v + 1"
proof -
  assume below: "sint v < 2 ^ 63 - 1"
  have lo: "- (2 ^ 63) \<le> sint v" using sint_ge [of v] by simp
  have "sint (v + 1) = signed_take_bit 63 (sint v + 1)"
    by (simp add: sint_word_ariths)
  also have "\<dots> = sint v + 1"
    using below lo by (intro signed_take_bit_int_eq_self) simp_all
  finally show ?thesis .
qed

text \<open>
  C8. Absent label reads as zero. When the fetched record has no counter label, the
  value handed to the callback is 0. The increment adds one to whatever value was
  read, with no bound and no floor: the sum is Go's, on 64 bits, and equals the
  mathematical successor below the largest \<open>int\<close>.
\<close>

theorem absent_label_reads_zero:
  assumes listed: "podsList clientset (namespace ws) (listOptionsFor ws podName) st = (Inr (p # rest), st1)"
  shows "(Labels p (label ws) = None \<longrightarrow>
            readLabel ws p = Inr 0 \<and>
            fetchAndCompute ws clientset podName callback w st =
              (Inr (setLabel ws (callback 0) p, callback 0), w, st1))
       \<and> (\<forall>v. readLabel ws p = Inr v \<longrightarrow>
            fetchAndCompute ws clientset podName incrementCallback w st =
              (Inr (setLabel ws (v + 1) p, v + 1), w, st1))
       \<and> (\<forall>v. incrementCallback v = v + 1 \<and>
              (sint v < 2 ^ 63 - 1 \<longrightarrow> sint (incrementCallback v) = sint v + 1))"
proof (intro conjI impI allI)
  assume absent: "Labels p (label ws) = None"
  then show zero: "readLabel ws p = Inr 0" by (simp add: readLabel_def)
  show "fetchAndCompute ws clientset podName callback w st =
              (Inr (setLabel ws (callback 0) p, callback 0), w, st1)"
    using fetchAndCompute_found [OF listed zero] .
next
  fix v assume "readLabel ws p = Inr v"
  from fetchAndCompute_found [OF listed this, of incrementCallback w]
  show "fetchAndCompute ws clientset podName incrementCallback w st =
              (Inr (setLabel ws (v + 1) p, v + 1), w, st1)"
    by (simp add: incrementCallback_def)
next
  fix v :: go_int
  show "incrementCallback v = v + 1" by (simp add: incrementCallback_def)
  assume "sint v < 2 ^ 63 - 1"
  then show "sint (incrementCallback v) = sint v + 1"
    by (simp add: incrementCallback_def sint_increment)
qed

theorem absent_label_reads_zero_witness:
  "Labels job1 (label defaultFlags) = None \<and> readLabel defaultFlags job1 = Inr 0 \<and>
   fetchAndCompute defaultFlags (fakeClientset appSelector) ''job-1'' incrementCallback
       newResponseWriter (quietWorld job1) =
     (Inr (setLabel defaultFlags 1 job1, 1), newResponseWriter,
      (quietWorld job1)\<lparr>actions := [ListAction ''default'' (listOptionsFor defaultFlags ''job-1'')]\<rparr>) \<and>
   Labels (setLabel defaultFlags 1 job1) ''active-jobs'' = Some ''1'' \<and>
   incrementCallback 9223372036854775806 = 9223372036854775807 \<and>
   sint (incrementCallback 41) = 42"
proof -
  have absent: "Labels job1 (label defaultFlags) = None"
    by (simp add: input_defs)
  have small: "sint (41 :: go_int) < 2 ^ 63 - 1" by simp
  from absent_label_reads_zero [OF listed_job1, of incrementCallback newResponseWriter] absent small
  have zero: "readLabel defaultFlags job1 = Inr 0"
    and "fetchAndCompute defaultFlags (fakeClientset appSelector) ''job-1'' incrementCallback
       newResponseWriter (quietWorld job1) =
     (Inr (setLabel defaultFlags (incrementCallback 0) job1, incrementCallback 0), newResponseWriter,
      (quietWorld job1)\<lparr>actions := [ListAction ''default'' (listOptionsFor defaultFlags ''job-1'')]\<rparr>)"
    and "incrementCallback 9223372036854775806 = 9223372036854775806 + 1"
    and "sint (incrementCallback 41) = sint (41 :: go_int) + 1"
    by blast+
  moreover have "incrementCallback 0 = 1" by (simp add: incrementCallback_def)
  moreover have "Labels (setLabel defaultFlags 1 job1) ''active-jobs'' = Some ''1''"
    by (simp add: setLabel_def input_defs conv_defs)
  ultimately show ?thesis using absent by simp
qed

section \<open>Zero reached from either side\<close>

text \<open>
  C10, as the code has it. Remove-on-zero applies to whichever operation computes 0:
  with remove-on-zero on, an increment of a record whose counter is -1 computes 0 and
  deletes the label. With remove-on-zero off and allow-negative off, a decrement of a
  record without the label writes the label "0", creating it.
\<close>

theorem zero_policy_other_direction:
  assumes listed: "podsList clientset (namespace ws) (listOptionsFor ws podName) st = (Inr (p # rest), st1)"
  shows "(removeOnZero ws \<and> readLabel ws p = Inr (- 1) \<longrightarrow>
            fetchAndCompute ws clientset podName incrementCallback w st =
              (Inr (setLabel ws 0 p, 0), w, st1) \<and>
            Labels (setLabel ws 0 p) (label ws) = None)
       \<and> (\<not> removeOnZero ws \<and> \<not> allowNegative ws \<and> Labels p (label ws) = None \<longrightarrow>
            fetchAndCompute ws clientset podName (decrementCallback ws) w st =
              (Inr (setLabel ws 0 p, 0), w, st1) \<and>
            Labels (setLabel ws 0 p) (label ws) = Some ''0'')"
proof (intro conjI impI)
  assume a: "removeOnZero ws \<and> readLabel ws p = Inr (- 1)"
  from fetchAndCompute_found [OF listed, of "- 1" incrementCallback w] a
  show "fetchAndCompute ws clientset podName incrementCallback w st =
              (Inr (setLabel ws 0 p, 0), w, st1)"
    by (simp add: incrementCallback_def)
  from a show "Labels (setLabel ws 0 p) (label ws) = None"
    by (simp add: Labels_setLabel)
next
  assume b: "\<not> removeOnZero ws \<and> \<not> allowNegative ws \<and> Labels p (label ws) = None"
  then have zero: "readLabel ws p = Inr 0" by (simp add: readLabel_def)
  from fetchAndCompute_found [OF listed zero, of "decrementCallback ws" w] b
  show "fetchAndCompute ws clientset podName (decrementCallback ws) w st =
              (Inr (setLabel ws 0 p, 0), w, st1)"
    by (simp add: decrementCallback_def)
  from b show "Labels (setLabel ws 0 p) (label ws) = Some ''0''"
    by (simp add: Labels_setLabel Itoa_zero)
qed

theorem zero_policy_other_direction_witness:
  "removeOnZero defaultFlags \<and> readLabel defaultFlags (job1At ''-1'') = Inr (- 1) \<and>
   fst (fetchAndCompute defaultFlags (fakeClientset appSelector) ''job-1'' incrementCallback
          newResponseWriter (quietWorld (job1At ''-1''))) =
     Inr (setLabel defaultFlags 0 (job1At ''-1''), 0) \<and>
   Labels (setLabel defaultFlags 0 (job1At ''-1'')) (label defaultFlags) = None \<and>
   \<not> removeOnZero keepZeroFlags \<and> \<not> allowNegative keepZeroFlags \<and>
   Labels job1 (label keepZeroFlags) = None \<and>
   fst (fetchAndCompute keepZeroFlags (fakeClientset appSelector) ''job-1''
          (decrementCallback keepZeroFlags) newResponseWriter (quietWorld job1)) =
     Inr (setLabel keepZeroFlags 0 job1, 0) \<and>
   Labels (setLabel keepZeroFlags 0 job1) (label keepZeroFlags) = Some ''0''"
proof -
  let ?wd = "quietWorld (job1At ''-1'')"
  have listed: "podsList (fakeClientset appSelector) (namespace defaultFlags)
      (listOptionsFor defaultFlags ''job-1'') ?wd =
    (Inr [job1At ''-1''], ?wd\<lparr>actions := [ListAction ''default'' (listOptionsFor defaultFlags ''job-1'')]\<rparr>)"
    by (simp add: store_defs listOptionsFor_def input_defs job1At_def)
  have listed': "podsList (fakeClientset appSelector) (namespace keepZeroFlags)
      (listOptionsFor keepZeroFlags ''job-1'') (quietWorld job1) =
    (Inr [job1],
     (quietWorld job1)\<lparr>actions := [ListAction ''default'' (listOptionsFor keepZeroFlags ''job-1'')]\<rparr>)"
    by (simp add: store_defs listOptionsFor_def input_defs keepZeroFlags_def)
  have first: "removeOnZero defaultFlags \<and> readLabel defaultFlags (job1At ''-1'') = Inr (- 1)"
    by (simp add: readLabel_def input_defs job1At_def conv_defs)
  have second: "\<not> removeOnZero keepZeroFlags \<and> \<not> allowNegative keepZeroFlags \<and>
      Labels job1 (label keepZeroFlags) = None"
    by (simp add: input_defs keepZeroFlags_def)
  from zero_policy_other_direction [OF listed, of newResponseWriter] first
    zero_policy_other_direction [OF listed', of newResponseWriter] second
  show ?thesis by simp
qed

text \<open>
  C10 as stated does not fix allow-negative for the decrement: with allow-negative on
  (and remove-on-zero off) the decrement of a record without the label writes "-1".
\<close>

theorem decrement_absent_label_counterexample:
  "\<not> removeOnZero negativeFlags \<and> Labels job1 (label negativeFlags) = None \<and>
   fetchAndCompute negativeFlags (fakeClientset appSelector) ''job-1''
       (decrementCallback negativeFlags) newResponseWriter (quietWorld job1) =
     (Inr (job1\<lparr>Labels := [''active-jobs'' \<mapsto> ''-1'']\<rparr>, - 1), newResponseWriter,
      (quietWorld job1)\<lparr>actions := [ListAction ''default'' (listOptionsFor negativeFlags ''job-1'')]\<rparr>)"
  by (simp add: negativeFlags_def engine_defs store_defs conv_defs input_defs)


section \<open>Failures that are not retried\<close>

text \<open>
  Whatever makes \<open>strconv.Atoi\<close> fail on the label (the syntax, or a value out of
  the range of \<open>int\<close>), the request fails once and writes nothing.
\<close>

lemma unparsable_value_fails_once:
  assumes post: "Method r = ''POST''"
    and named: "queryGet r ''pod_name'' = podName" and nonempty: "podName \<noteq> []"
    and listed: "podsList clientset (namespace ws) (listOptionsFor ws podName) st = (Inr (p # rest), st1)"
    and present: "Labels p (label ws) = Some valueStr"
    and e: "Atoi valueStr = Inl e"
  shows "retryUpdateLabel ws clientset podName callback w st =
          (Some (Wrap (NumError e valueStr) ''invalid %q label value: %q'' [label ws, valueStr]),
           http_Error w (InvalidLabelValue (label ws) valueStr) 500, st1)
      \<and> buildIncrementHandler ws clientset w r st =
          (http_Error w (InvalidLabelValue (label ws) valueStr) 500, st1)
      \<and> buildDecrementHandler ws clientset w r st =
          (http_Error w (InvalidLabelValue (label ws) valueStr) 500, st1)
      \<and> (status w = None \<longrightarrow>
            status (http_Error w (InvalidLabelValue (label ws) valueStr) 500) = Some 500)"
proof -
  have unread: "readLabel ws p = Inl (e, valueStr)"
    using present e by (simp add: readLabel_def)
  have once: "\<And>cb. retryUpdateLabel ws clientset podName cb w st =
          (Some (Wrap (NumError e valueStr) ''invalid %q label value: %q'' [label ws, valueStr]),
           http_Error w (InvalidLabelValue (label ws) valueStr) 500, st1)"
    by (rule retryUpdateLabel_final [OF updateLabel_corrupt [OF listed unread]]) simp
  have inc: "buildIncrementHandler ws clientset w r st =
          (http_Error w (InvalidLabelValue (label ws) valueStr) 500, st1)"
    by (simp add: buildIncrementHandler_def updateLabelRequest_named [OF post named nonempty] once)
  have dec: "buildDecrementHandler ws clientset w r st =
          (http_Error w (InvalidLabelValue (label ws) valueStr) 500, st1)"
    by (simp add: buildDecrementHandler_def updateLabelRequest_named [OF post named nonempty] once)
  have st: "status w = None \<longrightarrow>
            status (http_Error w (InvalidLabelValue (label ws) valueStr) 500) = Some 500"
    by (simp add: status_http_Error)
  from once [of callback] inc dec st show ?thesis by blast
qed

text \<open>
  C5. Corrupt-value atomicity. When the fetched record carries the counter label with
  a text that is not a valid base-10 integer, \<open>strconv.Atoi\<close> fails, and the
  increment and the decrement handler both answer with the invalid-value message
  under status 500 (on a response nothing was written to), in the state the single
  list call left: no second attempt, no update call. The engine returns the
  \<open>NumError\<close>, which is not the outcome of an absent label (that one reads as 0,
  see C8).
\<close>

theorem corrupt_value_fails_once:
  assumes post: "Method r = ''POST''"
    and named: "queryGet r ''pod_name'' = podName" and nonempty: "podName \<noteq> []"
    and listed: "podsList clientset (namespace ws) (listOptionsFor ws podName) st = (Inr (p # rest), st1)"
    and present: "Labels p (label ws) = Some valueStr"
    and corrupt: "\<not> specValidBase10 valueStr"
  shows "\<exists>e. Atoi valueStr = Inl e
      \<and> retryUpdateLabel ws clientset podName callback w st =
          (Some (Wrap (NumError e valueStr) ''invalid %q label value: %q'' [label ws, valueStr]),
           http_Error w (InvalidLabelValue (label ws) valueStr) 500, st1)
      \<and> buildIncrementHandler ws clientset w r st =
          (http_Error w (InvalidLabelValue (label ws) valueStr) 500, st1)
      \<and> buildDecrementHandler ws clientset w r st =
          (http_Error w (InvalidLabelValue (label ws) valueStr) 500, st1)
      \<and> (status w = None \<longrightarrow>
            status (http_Error w (InvalidLabelValue (label ws) valueStr) 500) = Some 500)"
proof -
  from Atoi_invalid [OF corrupt] obtain e where e: "Atoi valueStr = Inl e" by blast
  note once = unparsable_value_fails_once [OF post named nonempty listed present e, of callback w]
  show ?thesis
  proof (intro exI conjI)
    show "Atoi valueStr = Inl e" by (rule e)
  qed (insert once, simp_all)
qed

theorem corrupt_value_fails_once_witness:
  "\<not> specValidBase10 ''abc'' \<and> Labels (job1At ''abc'') (label defaultFlags) = Some ''abc'' \<and>
   status (fst (buildIncrementHandler defaultFlags (fakeClientset appSelector) newResponseWriter
                  postJob1 (quietWorld (job1At ''abc'')))) = Some 500 \<and>
   status (fst (buildDecrementHandler defaultFlags (fakeClientset appSelector) newResponseWriter
                  postJob1 (quietWorld (job1At ''abc'')))) = Some 500 \<and>
   snd (buildIncrementHandler defaultFlags (fakeClientset appSelector) newResponseWriter
          postJob1 (quietWorld (job1At ''abc''))) =
     (quietWorld (job1At ''abc''))
       \<lparr>actions := [ListAction ''default'' (listOptionsFor defaultFlags ''job-1'')]\<rparr>"
proof -
  let ?wd = "quietWorld (job1At ''abc'')"
  have post: "Method postJob1 = ''POST''" by (simp add: postJob1_def)
  have named: "queryGet postJob1 ''pod_name'' = ''job-1''" by (simp add: queryGet_def postJob1_def)
  have nonempty: "''job-1'' \<noteq> []" by simp
  have listed: "podsList (fakeClientset appSelector) (namespace defaultFlags)
      (listOptionsFor defaultFlags ''job-1'') ?wd =
    (Inr [job1At ''abc''], ?wd\<lparr>actions := [ListAction ''default'' (listOptionsFor defaultFlags ''job-1'')]\<rparr>)"
    by (simp add: store_defs listOptionsFor_def input_defs)
  have present: "Labels (job1At ''abc'') (label defaultFlags) = Some ''abc''"
    by (simp add: input_defs)
  have corrupt: "\<not> specValidBase10 ''abc''"
    by (simp add: specValidBase10_def isDigit_def)
  have fresh: "status newResponseWriter = None" by (simp add: newResponseWriter_def)
  from corrupt_value_fails_once [OF post named nonempty listed present corrupt, of incrementCallback newResponseWriter]
  have inc: "buildIncrementHandler defaultFlags (fakeClientset appSelector) newResponseWriter postJob1 ?wd =
          (http_Error newResponseWriter (InvalidLabelValue (label defaultFlags) ''abc'') 500,
           ?wd\<lparr>actions := [ListAction ''default'' (listOptionsFor defaultFlags ''job-1'')]\<rparr>)"
    and dec: "buildDecrementHandler defaultFlags (fakeClientset appSelector) newResponseWriter postJob1 ?wd =
          (http_Error newResponseWriter (InvalidLabelValue (label defaultFlags) ''abc'') 500,
           ?wd\<lparr>actions := [ListAction ''default'' (listOptionsFor defaultFlags ''job-1'')]\<rparr>)"
    by blast+
  show ?thesis
    by (simp only: inc dec fst_conv snd_conv present corrupt status_http_Error fresh option.case
        not_False_eq_True simp_thms)
qed

text \<open>
  C6. Not-found and selector enforcement. Against the store, a request that names a
  pod that is not in the configured namespace, or one that is there but whose labels
  the configured selector does not accept, gets the same outcome: the list call
  returns no item, the engine fails with the not-found error, the response is
  "Pod not found" under status 404, and after that single list call nothing else is
  asked of the store.
\<close>

theorem not_found_or_excluded:
  assumes post: "Method r = ''POST''"
    and named: "queryGet r ''pod_name'' = podName" and nonempty: "podName \<noteq> []"
    and quiet: "pending wd = []"
    and missing: "objects wd (namespace ws, podName) = None \<or>
       (\<exists>p. objects wd (namespace ws, podName) = Some p \<and> \<not> matches (labelSelector ws) (Labels p))"
  shows "retryUpdateLabel ws (fakeClientset matches) podName callback w wd =
          (Some (Errorf (''pod '' @ podName @ '' not found in namespace '' @ namespace ws)),
           http_Error w PodNotFound 404,
           wd\<lparr>actions := actions wd @ [ListAction (namespace ws) (listOptionsFor ws podName)]\<rparr>)
      \<and> updateLabelRequest ws w r (fakeClientset matches) callback wd =
          (http_Error w PodNotFound 404,
           wd\<lparr>actions := actions wd @ [ListAction (namespace ws) (listOptionsFor ws podName)]\<rparr>)
      \<and> (status w = None \<longrightarrow> status (http_Error w PodNotFound 404) = Some 404)"
proof -
  let ?wd1 = "wd\<lparr>actions := actions wd @ [ListAction (namespace ws) (listOptionsFor ws podName)]\<rparr>"
  have sel: "storeList matches (objects wd) (namespace ws) (listOptionsFor ws podName) = Inr []"
    using missing by (auto simp: storeList_def listOptionsFor_def)
  have listed: "podsList (fakeClientset matches) (namespace ws) (listOptionsFor ws podName) wd =
      (Inr [], ?wd1)"
    using quiet sel by (simp add: fakeClientset_def fakeList_def interfere_def)
  have once: "retryUpdateLabel ws (fakeClientset matches) podName callback w wd =
          (Some (Errorf (''pod '' @ podName @ '' not found in namespace '' @ namespace ws)),
           http_Error w PodNotFound 404, ?wd1)"
    by (rule retryUpdateLabel_final [OF updateLabel_none_listed [OF listed]]) simp
  show ?thesis
    by (simp add: updateLabelRequest_named [OF post named nonempty] once status_http_Error)
qed

theorem not_found_or_excluded_witness:
  "objects (quietWorld job1) (namespace defaultFlags, ''job-2'') = None \<and>
   objects (quietWorld job1) (namespace batchFlags, ''job-1'') = Some job1 \<and>
   \<not> appSelector (labelSelector batchFlags) (Labels job1) \<and>
   status (fst (updateLabelRequest defaultFlags newResponseWriter postJob2
                  (fakeClientset appSelector) incrementCallback (quietWorld job1))) = Some 404 \<and>
   status (fst (updateLabelRequest batchFlags newResponseWriter postJob1
                  (fakeClientset appSelector) incrementCallback (quietWorld job1))) = Some 404 \<and>
   fst (updateLabelRequest defaultFlags newResponseWriter postJob2
          (fakeClientset appSelector) incrementCallback (quietWorld job1)) =
   fst (updateLabelRequest batchFlags newResponseWriter postJob1
          (fakeClientset appSelector) incrementCallback (quietWorld job1)) \<and>
   actions (snd (updateLabelRequest batchFlags newResponseWriter postJob1
          (fakeClientset appSelector) incrementCallback (quietWorld job1))) =
     [ListAction ''default'' (listOptionsFor batchFlags ''job-1'')]"
proof -
  have post1: "Method postJob1 = ''POST''" and post2: "Method postJob2 = ''POST''"
    by (simp_all add: postJob1_def postJob2_def)
  have named1: "queryGet postJob1 ''pod_name'' = ''job-1''"
    and named2: "queryGet postJob2 ''pod_name'' = ''job-2''"
    by (simp_all add: queryGet_def postJob1_def postJob2_def)
  have quiet: "pending (quietWorld job1) = []" by (simp add: quietWorld_def)
  have absent: "objects (quietWorld job1) (namespace defaultFlags, ''job-2'') = None"
    by (simp add: input_defs)
  have there: "objects (quietWorld job1) (namespace batchFlags, ''job-1'') = Some job1"
    by (simp add: input_defs batchFlags_def)
  have excluded: "\<not> appSelector (labelSelector batchFlags) (Labels job1)"
    by (simp add: appSelector_def input_defs batchFlags_def)
  have fresh: "status newResponseWriter = None" by (simp add: newResponseWriter_def)
  have a: "updateLabelRequest defaultFlags newResponseWriter postJob2
          (fakeClientset appSelector) incrementCallback (quietWorld job1) =
          (http_Error newResponseWriter PodNotFound 404,
           (quietWorld job1)\<lparr>actions := actions (quietWorld job1) @
              [ListAction (namespace defaultFlags) (listOptionsFor defaultFlags ''job-2'')]\<rparr>)"
    using not_found_or_excluded [OF post2 named2 _ quiet, of defaultFlags appSelector
        incrementCallback newResponseWriter] absent
    by simp
  have b: "updateLabelRequest batchFlags newResponseWriter postJob1
          (fakeClientset appSelector) incrementCallback (quietWorld job1) =
          (http_Error newResponseWriter PodNotFound 404,
           (quietWorld job1)\<lparr>actions := actions (quietWorld job1) @
              [ListAction (namespace batchFlags) (listOptionsFor batchFlags ''job-1'')]\<rparr>)"
    using not_found_or_excluded [OF post1 named1 _ quiet, of batchFlags appSelector
        incrementCallback newResponseWriter] there excluded
    by simp
  have ns: "namespace batchFlags = ''default''" by (simp add: batchFlags_def defaultFlags_def)
  have unlogged: "actions (quietWorld job1) = []" by (simp add: quietWorld_def)
  show ?thesis
    by (simp add: a b absent there there [unfolded ns] excluded status_http_Error fresh ns unlogged)
qed

section \<open>The error behind a failed request\<close>

text \<open>
  An attempt fails in exactly four ways, each with its error response and its
  wrapped error; what \<open>RetryOnConflict\<close> returns is what its last attempt returned;
  and an engine invocation that returns an error on a fresh response has answered 500,
  or 404 when the first attempt found no pod.
\<close>

lemma updateLabel_fails_iff:
  "updateLabel ws cs podName cb w0 st0 = (Some e, w1, st1) \<longleftrightarrow>
     (\<exists>err. podsList cs (namespace ws) (listOptionsFor ws podName) st0 = (Inl err, st1) \<and>
        e = Wrap err ''failed to list pods'' [] \<and>
        w1 = http_Error w0 (FailedToListPods err) 500)
   \<or> (podsList cs (namespace ws) (listOptionsFor ws podName) st0 = (Inr [], st1) \<and>
        e = Errorf (''pod '' @ podName @ '' not found in namespace '' @ namespace ws) \<and>
        w1 = http_Error w0 PodNotFound 404)
   \<or> (\<exists>p rest ne s.
        podsList cs (namespace ws) (listOptionsFor ws podName) st0 = (Inr (p # rest), st1) \<and>
        readLabel ws p = Inl (ne, s) \<and>
        e = Wrap (NumError ne s) ''invalid %q label value: %q'' [label ws, s] \<and>
        w1 = http_Error w0 (InvalidLabelValue (label ws) s) 500)
   \<or> (\<exists>p rest v sta err.
        podsList cs (namespace ws) (listOptionsFor ws podName) st0 = (Inr (p # rest), sta) \<and>
        readLabel ws p = Inr v \<and>
        podsUpdate cs (Namespace p) (setLabel ws (cb v) p) sta = (Inl err, st1) \<and>
        e = Wrap err ''failed to update pod label'' [] \<and>
        w1 = http_Error w0 FailedToUpdatePodLabel 500)"
  (is "?lhs \<longleftrightarrow> ?a \<or> ?b \<or> ?c \<or> ?d")
proof
  assume ?lhs
  obtain lr sta where l: "podsList cs (namespace ws) (listOptionsFor ws podName) st0 = (lr, sta)"
    by (cases "podsList cs (namespace ws) (listOptionsFor ws podName) st0") auto
  show "?a \<or> ?b \<or> ?c \<or> ?d"
  proof (cases lr)
    case (Inl err)
    with l \<open>?lhs\<close> have ?a by (simp add: updateLabel_list_failed)
    then show ?thesis by blast
  next
    case (Inr items)
    show ?thesis
    proof (cases items)
      case Nil
      with l Inr \<open>?lhs\<close> have ?b by (simp add: updateLabel_none_listed)
      then show ?thesis by blast
    next
      case (Cons p rest)
      with l Inr have listed:
        "podsList cs (namespace ws) (listOptionsFor ws podName) st0 = (Inr (p # rest), sta)"
        by simp
      show ?thesis
      proof (cases "readLabel ws p")
        case (Inl bad)
        obtain ne s where bad: "bad = (ne, s)" by (cases bad)
        from updateLabel_corrupt [OF listed Inl [unfolded bad], of cb w0] \<open>?lhs\<close> listed Inl bad
        have ?c by auto
        then show ?thesis by blast
      next
        case (Inr v)
        obtain ur stb where u:
          "podsUpdate cs (Namespace p) (setLabel ws (cb v) p) sta = (ur, stb)"
          by (cases "podsUpdate cs (Namespace p) (setLabel ws (cb v) p) sta") auto
        from \<open>?lhs\<close> have wb: "writeBack cs (setLabel ws (cb v) p) (cb v) w0 sta = (Some e, w1, st1)"
          by (simp add: updateLabel_found [OF listed Inr])
        show ?thesis
        proof (cases ur)
          case (Inl err)
          with u wb have "e = Wrap err ''failed to update pod label'' []"
            "w1 = http_Error w0 FailedToUpdatePodLabel 500" "stb = st1"
            by (simp_all add: writeBack_def)
          with listed Inr u Inl have ?d by blast
          then show ?thesis by blast
        next
          case (Inr updated)
          with u wb show ?thesis by (simp add: writeBack_def)
        qed
      qed
    qed
  qed
next
  assume "?a \<or> ?b \<or> ?c \<or> ?d"
  then show ?lhs
  proof (elim disjE exE conjE)
    fix err
    assume "podsList cs (namespace ws) (listOptionsFor ws podName) st0 = (Inl err, st1)"
      "e = Wrap err ''failed to list pods'' []" "w1 = http_Error w0 (FailedToListPods err) 500"
    then show ?lhs by (simp add: updateLabel_list_failed)
  next
    assume "podsList cs (namespace ws) (listOptionsFor ws podName) st0 = (Inr [], st1)"
      "e = Errorf (''pod '' @ podName @ '' not found in namespace '' @ namespace ws)"
      "w1 = http_Error w0 PodNotFound 404"
    then show ?lhs by (simp add: updateLabel_none_listed)
  next
    fix p rest ne s
    assume listed: "podsList cs (namespace ws) (listOptionsFor ws podName) st0 = (Inr (p # rest), st1)"
      and unread: "readLabel ws p = Inl (ne, s)"
      and "e = Wrap (NumError ne s) ''invalid %q label value: %q'' [label ws, s]"
      "w1 = http_Error w0 (InvalidLabelValue (label ws) s) 500"
    then show ?lhs by (simp add: updateLabel_corrupt [OF listed unread])
  next
    fix p rest v sta err
    assume listed: "podsList cs (namespace ws) (listOptionsFor ws podName) st0 = (Inr (p # rest), sta)"
      and current: "readLabel ws p = Inr v"
      and rejected: "podsUpdate cs (Namespace p) (setLabel ws (cb v) p) sta = (Inl err, st1)"
      and "e = Wrap err ''failed to update pod label'' []"
      "w1 = http_Error w0 FailedToUpdatePodLabel 500"
    then show ?lhs
      by (simp add: updateLabel_found [OF listed current] writeBack_def)
  qed
qed

lemma RetryOnConflict_last_attempt:
  "RetryOnConflict (Suc n) lastErr fn w st = (res, w', st') \<Longrightarrow>
     \<exists>w0 st0. fn w0 st0 = (res, w', st')"
proof (induction n arbitrary: lastErr w st)
  case 0
  obtain r w1 st1 where step: "fn w st = (r, w1, st1)" by (cases "fn w st") auto
  with "0.prems" have "(r, w1, st1) = (res, w', st')"
    by (cases r) (auto split: if_splits)
  with step show ?case by auto
next
  case (Suc n)
  obtain r w1 st1 where step: "fn w st = (r, w1, st1)" by (cases "fn w st") auto
  show ?case
  proof (cases "\<exists>e. r = Some e \<and> IsConflict e")
    case True
    then obtain e where "r = Some e" "IsConflict e" by blast
    with Suc.prems step have "RetryOnConflict (Suc n) (Some e) fn w1 st1 = (res, w', st')"
      by simp
    from Suc.IH [OF this] show ?thesis .
  next
    case False
    with Suc.prems step have "(r, w1, st1) = (res, w', st')"
      by (cases r) (auto split: if_splits)
    with step show ?thesis by auto
  qed
qed

lemma retryUpdateLabel_error_status:
  assumes fresh: "status w = None"
    and result: "retryUpdateLabel ws cs podName cb w st = (Some e, w', st')"
  shows "status w' = Some 500 \<or>
         status w' = Some 404 \<and>
           e = Errorf (''pod '' @ podName @ '' not found in namespace '' @ namespace ws)"
proof -
  let ?fn = "updateLabel ws cs podName cb"
  obtain r w1 st1 where step: "?fn w st = (r, w1, st1)" by (cases "?fn w st") auto
  from result
  have unfolded: "RetryOnConflict (Suc (Suc (Suc (Suc 0)))) None ?fn w st = (Some e, w', st')"
    by (simp only: retryUpdateLabel_def DefaultBackoff_Steps_Suc)
  show ?thesis
  proof (cases r)
    case None
    with unfolded step show ?thesis by simp
  next
    case (Some e1)
    from step [unfolded Some updateLabel_fails_iff]
    have code: "status w1 = Some 500 \<or>
        status w1 = Some 404 \<and> \<not> IsConflict e1 \<and>
          e1 = Errorf (''pod '' @ podName @ '' not found in namespace '' @ namespace ws)"
      using fresh by (auto simp: status_http_Error)
    show ?thesis
    proof (cases "IsConflict e1")
      case True
      with code have s1: "status w1 = Some 500" by auto
      from unfolded step Some True
      have "RetryOnConflict (Suc (Suc (Suc 0))) (Some e1) ?fn w1 st1 = (Some e, w', st')"
        by (simp del: RetryOnConflict.simps add: RetryOnConflict.simps(2) [of "Suc (Suc (Suc 0))"])
      from RetryOnConflict_status_kept [OF s1 this] show ?thesis by simp
    next
      case False
      with unfolded step Some have "e = e1" "w' = w1" by simp_all
      with code show ?thesis by auto
    qed
  qed
qed

text \<open>
  C9, as the code has it. For a request that names a pod, on a response that is still
  unwritten: the engine invocation (the retried \<open>updateLabel\<close>) returns what its last
  attempt returned, whatever conflicts came before. An attempt returns an error
  exactly when its list call fails, it lists no pod, the label does not parse, or its
  update call fails, and the error is then the underlying one, wrapped (the
  not-found error is built in place), next to the error response. When the engine
  invocation returns an error the status is 500, or 404 with the not-found error;
  when every attempt the budget allows ends in a conflict, it returns the last
  conflict. That value reaches \<open>updateLabelRequest\<close> and no further: what the handler
  yields is the response and the store, without the error.
\<close>

theorem failing_request_error_is_dropped:
  assumes fresh: "status w = None"
    and post: "Method r = ''POST''"
    and named: "queryGet r ''pod_name'' = podName" and nonempty: "podName \<noteq> []"
    and result: "retryUpdateLabel ws clientset podName callback w st = (res, w', st')"
  shows
   "updateLabelRequest ws w r clientset callback st = (w', st')
  \<and> (\<exists>w0 st0. updateLabel ws clientset podName callback w0 st0 = (res, w', st'))
  \<and> (\<forall>w0 st0 e w1 st1.
       (updateLabel ws clientset podName callback w0 st0 = (Some e, w1, st1)) =
       ((\<exists>err. podsList clientset (namespace ws) (listOptionsFor ws podName) st0 = (Inl err, st1) \<and>
           e = Wrap err ''failed to list pods'' [] \<and>
           w1 = http_Error w0 (FailedToListPods err) 500)
      \<or> (podsList clientset (namespace ws) (listOptionsFor ws podName) st0 = (Inr [], st1) \<and>
           e = Errorf (''pod '' @ podName @ '' not found in namespace '' @ namespace ws) \<and>
           w1 = http_Error w0 PodNotFound 404)
      \<or> (\<exists>p rest ne s.
           podsList clientset (namespace ws) (listOptionsFor ws podName) st0 = (Inr (p # rest), st1) \<and>
           readLabel ws p = Inl (ne, s) \<and>
           e = Wrap (NumError ne s) ''invalid %q label value: %q'' [label ws, s] \<and>
           w1 = http_Error w0 (InvalidLabelValue (label ws) s) 500)
      \<or> (\<exists>p rest v sta err.
           podsList clientset (namespace ws) (listOptionsFor ws podName) st0 = (Inr (p # rest), sta) \<and>
           readLabel ws p = Inr v \<and>
           podsUpdate clientset (Namespace p) (setLabel ws (callback v) p) sta = (Inl err, st1) \<and>
           e = Wrap err ''failed to update pod label'' [] \<and>
           w1 = http_Error w0 FailedToUpdatePodLabel 500)))
  \<and> (\<forall>e. res = Some e \<longrightarrow>
         status w' = Some 500 \<or>
         status w' = Some 404 \<and>
           e = Errorf (''pod '' @ podName @ '' not found in namespace '' @ namespace ws))
  \<and> (allConflicts DefaultBackoff_Steps (updateLabel ws clientset podName callback) w st \<longrightarrow>
         (\<exists>e. res = Some e \<and> IsConflict e))"
proof (intro conjI allI impI)
  show "updateLabelRequest ws w r clientset callback st = (w', st')"
    by (simp add: updateLabelRequest_named [OF post named nonempty] result)
next
  from result
  have "RetryOnConflict (Suc (Suc (Suc (Suc 0)))) None (updateLabel ws clientset podName callback) w st =
      (res, w', st')"
    by (simp only: retryUpdateLabel_def DefaultBackoff_Steps_Suc)
  then show "\<exists>w0 st0. updateLabel ws clientset podName callback w0 st0 = (res, w', st')"
    by (rule RetryOnConflict_last_attempt)
next
  fix w0 st0 e w1 st1
  show "(updateLabel ws clientset podName callback w0 st0 = (Some e, w1, st1)) =
       ((\<exists>err. podsList clientset (namespace ws) (listOptionsFor ws podName) st0 = (Inl err, st1) \<and>
           e = Wrap err ''failed to list pods'' [] \<and>
           w1 = http_Error w0 (FailedToListPods err) 500)
      \<or> (podsList clientset (namespace ws) (listOptionsFor ws podName) st0 = (Inr [], st1) \<and>
           e = Errorf (''pod '' @ podName @ '' not found in namespace '' @ namespace ws) \<and>
           w1 = http_Error w0 PodNotFound 404)
      \<or> (\<exists>p rest ne s.
           podsList clientset (namespace ws) (listOptionsFor ws podName) st0 = (Inr (p # rest), st1) \<and>
           readLabel ws p = Inl (ne, s) \<and>
           e = Wrap (NumError ne s) ''invalid %q label value: %q'' [label ws, s] \<and>
           w1 = http_Error w0 (InvalidLabelValue (label ws) s) 500)
      \<or> (\<exists>p rest v sta err.
           podsList clientset (namespace ws) (listOptionsFor ws podName) st0 = (Inr (p # rest), sta) \<and>
           readLabel ws p = Inr v \<and>
           podsUpdate clientset (Namespace p) (setLabel ws (callback v) p) sta = (Inl err, st1) \<and>
           e = Wrap err ''failed to update pod label'' [] \<and>
           w1 = http_Error w0 FailedToUpdatePodLabel 500))"
    by (rule updateLabel_fails_iff)
next
  fix e assume "res = Some e"
  with result have "retryUpdateLabel ws clientset podName callback w st = (Some e, w', st')"
    by simp
  from retryUpdateLabel_error_status [OF fresh this]
  show "status w' = Some 500 \<or>
         status w' = Some 404 \<and>
           e = Errorf (''pod '' @ podName @ '' not found in namespace '' @ namespace ws)" .
next
  let ?fn = "updateLabel ws clientset podName callback"
  assume all: "allConflicts DefaultBackoff_Steps ?fn w st"
  have "\<exists>e w' st'. RetryOnConflict DefaultBackoff_Steps None ?fn w st = (Some e, w', st') \<and> IsConflict e"
    by (rule RetryOnConflict_exhausted [OF all]) (simp_all add: DefaultBackoff_Steps_def)
  with result show "\<exists>e. res = Some e \<and> IsConflict e"
    by (auto simp: retryUpdateLabel_def)
qed

theorem failing_request_error_is_dropped_witness:
  "fst (retryUpdateLabel defaultFlags (fakeClientset appSelector) ''job-1'' incrementCallback
          newResponseWriter (scriptedWorld [Quiet, touchJob1, Quiet, Outage] job1)) =
     Some (Wrap (OtherError ''connection refused'') ''failed to update pod label'' [])
   \<and> updateLabelRequest defaultFlags newResponseWriter postJob1 (fakeClientset appSelector)
        incrementCallback (scriptedWorld [Quiet, touchJob1, Quiet, Outage] job1) =
      snd (retryUpdateLabel defaultFlags (fakeClientset appSelector) ''job-1'' incrementCallback
             newResponseWriter (scriptedWorld [Quiet, touchJob1, Quiet, Outage] job1))
   \<and> fst (updateLabelRequest defaultFlags newResponseWriter postJob1 (fakeClientset appSelector)
        incrementCallback (scriptedWorld [Quiet, touchJob1, Quiet, Outage] job1)) =
      \<lparr>status = Some 500,
       body = [ErrorLine FailedToUpdatePodLabel, ErrorLine FailedToUpdatePodLabel]\<rparr>
   \<and> allConflicts DefaultBackoff_Steps
        (updateLabel defaultFlags (fakeClientset appSelector) ''job-1'' incrementCallback)
        newResponseWriter
        (scriptedWorld [Quiet, touchJob1, Quiet, touchJob1, Quiet, touchJob1, Quiet, touchJob1] job1)
   \<and> (\<exists>e. fst (retryUpdateLabel defaultFlags (fakeClientset appSelector) ''job-1'' incrementCallback
          newResponseWriter
          (scriptedWorld [Quiet, touchJob1, Quiet, touchJob1, Quiet, touchJob1, Quiet, touchJob1] job1)) =
        Some e \<and> IsConflict e)"
proof -
  let ?cs = "fakeClientset appSelector"
  let ?mixed = "scriptedWorld [Quiet, touchJob1, Quiet, Outage] job1"
  let ?outrun = "scriptedWorld [Quiet, touchJob1, Quiet, touchJob1, Quiet, touchJob1, Quiet, touchJob1] job1"
  have fresh: "status newResponseWriter = None" by (simp add: newResponseWriter_def)
  have post: "Method postJob1 = ''POST''" by (simp add: postJob1_def)
  have named: "queryGet postJob1 ''pod_name'' = ''job-1''" by (simp add: queryGet_def postJob1_def)
  have nonempty: "''job-1'' \<noteq> []" by simp
  obtain res w' st' where mixed:
    "retryUpdateLabel defaultFlags ?cs ''job-1'' incrementCallback newResponseWriter ?mixed = (res, w', st')"
    by (cases "retryUpdateLabel defaultFlags ?cs ''job-1'' incrementCallback newResponseWriter ?mixed") auto
  obtain res2 w2 st2 where outrun:
    "retryUpdateLabel defaultFlags ?cs ''job-1'' incrementCallback newResponseWriter ?outrun = (res2, w2, st2)"
    by (cases "retryUpdateLabel defaultFlags ?cs ''job-1'' incrementCallback newResponseWriter ?outrun") auto
  have ran: "fst (retryUpdateLabel defaultFlags ?cs ''job-1'' incrementCallback newResponseWriter ?mixed) =
      Some (Wrap (OtherError ''connection refused'') ''failed to update pod label'' [])
    \<and> fst (snd (retryUpdateLabel defaultFlags ?cs ''job-1'' incrementCallback newResponseWriter ?mixed)) =
      \<lparr>status = Some 500,
       body = [ErrorLine FailedToUpdatePodLabel, ErrorLine FailedToUpdatePodLabel]\<rparr>"
    by (simp add: engine_defs store_defs conv_defs input_defs)
  have exhausted: "allConflicts DefaultBackoff_Steps
        (updateLabel defaultFlags ?cs ''job-1'' incrementCallback) newResponseWriter ?outrun"
    by (simp add: engine_defs store_defs conv_defs input_defs)
  from failing_request_error_is_dropped [OF fresh post named nonempty mixed]
  have dropped: "updateLabelRequest defaultFlags newResponseWriter postJob1 ?cs incrementCallback ?mixed =
      (w', st')"
    by blast
  from failing_request_error_is_dropped [OF fresh post named nonempty outrun] exhausted
  have last: "\<exists>e. res2 = Some e \<and> IsConflict e"
    by blast
  from ran mixed have "res = Some (Wrap (OtherError ''connection refused'') ''failed to update pod label'' [])"
    and "w' = \<lparr>status = Some 500,
       body = [ErrorLine FailedToUpdatePodLabel, ErrorLine FailedToUpdatePodLabel]\<rparr>"
    by simp_all
  with dropped mixed last outrun exhausted show ?thesis
    by (simp only: fst_conv snd_conv simp_thms)
qed

text \<open>
  C9 as stated has the error reach the caller for logging. \<open>updateLabelRequest\<close>
  assigns it to the blank identifier: an update refused by the connection and one
  forbidden by the store return different errors from the engine, and the handler
  yields the same response and nothing else for both.
\<close>

theorem dropped_error_counterexample:
  "fst (retryUpdateLabel defaultFlags (refusingClientset (OtherError ''connection refused''))
          ''job-1'' incrementCallback newResponseWriter ()) =
     Some (Wrap (OtherError ''connection refused'') ''failed to update pod label'' [])
   \<and> fst (retryUpdateLabel defaultFlags (refusingClientset (StatusError StatusReasonForbidden))
          ''job-1'' incrementCallback newResponseWriter ()) =
     Some (Wrap (StatusError StatusReasonForbidden) ''failed to update pod label'' [])
   \<and> buildIncrementHandler defaultFlags (refusingClientset (OtherError ''connection refused''))
        newResponseWriter postJob1 () =
      (\<lparr>status = Some 500, body = [ErrorLine FailedToUpdatePodLabel]\<rparr>, ())
   \<and> buildIncrementHandler defaultFlags (refusingClientset (StatusError StatusReasonForbidden))
        newResponseWriter postJob1 () =
      (\<lparr>status = Some 500, body = [ErrorLine FailedToUpdatePodLabel]\<rparr>, ())"
  by (simp add: refusingClientset_def engine_defs conv_defs input_defs)


section \<open>The scenario of the specification\<close>

text \<open>
  C7. End-to-end scenario under the default flags, on a quiet store whose selector
  language accepts everything for the empty selector: for a pod \<open>job-1\<close> of the
  namespace \<open>default\<close> without the counter label, a POST to the increment handler
  answers 200 with body 1 and stores the label 1; a second one answers 2; a POST to
  the decrement handler answers 1, and a second one answers 0 and leaves the stored
  pod without the label.
\<close>

theorem scenario_job1:
  assumes everything: "\<And>l. matches [] l"
    and stored: "objects wd (''default'', ''job-1'') = Some p"
    and name: "Name p = ''job-1''" and ns: "Namespace p = ''default''"
    and unlabelled: "Labels p ''active-jobs'' = None"
    and quiet: "pending wd = []"
  shows
   "case buildIncrementHandler defaultFlags (fakeClientset matches) newResponseWriter postJob1 wd of
      (w1, wd1) \<Rightarrow>
        status w1 = Some 200 \<and> body w1 = [Text ''1''] \<and>
        storedLabel wd1 ''default'' ''job-1'' ''active-jobs'' = Some (Some ''1'') \<and>
   (case buildIncrementHandler defaultFlags (fakeClientset matches) newResponseWriter postJob1 wd1 of
      (w2, wd2) \<Rightarrow>
        status w2 = Some 200 \<and> body w2 = [Text ''2''] \<and>
        storedLabel wd2 ''default'' ''job-1'' ''active-jobs'' = Some (Some ''2'') \<and>
   (case buildDecrementHandler defaultFlags (fakeClientset matches) newResponseWriter postJob1 wd2 of
      (w3, wd3) \<Rightarrow>
        status w3 = Some 200 \<and> body w3 = [Text ''1''] \<and>
        storedLabel wd3 ''default'' ''job-1'' ''active-jobs'' = Some (Some ''1'') \<and>
   (case buildDecrementHandler defaultFlags (fakeClientset matches) newResponseWriter postJob1 wd3 of
      (w4, wd4) \<Rightarrow>
        status w4 = Some 200 \<and> body w4 = [Text ''0''] \<and>
        storedLabel wd4 ''default'' ''job-1'' ''active-jobs'' = Some None)))"
proof -
  let ?ws = defaultFlags
  have post: "Method postJob1 = ''POST''" by (simp add: postJob1_def)
  have named: "queryGet postJob1 ''pod_name'' = ''job-1''" by (simp add: queryGet_def postJob1_def)
  have nonempty: "''job-1'' \<noteq> []" by simp
  have cfg: "namespace ?ws = ''default''" "labelSelector ?ws = []" "label ?ws = ''active-jobs''"
    "removeOnZero ?ws" "\<not> allowNegative ?ws"
    by (simp_all add: defaultFlags_def)
  note step = quiet_request [OF post named nonempty, where ws = ?ws and matches = matches,
      unfolded cfg, OF _ _ _ _ everything]
  define p1 where "p1 = written ?ws 1 p"
  define p2 where "p2 = written ?ws 2 p1"
  define p3 where "p3 = written ?ws 1 p2"
  define p4 where "p4 = written ?ws 0 p3"
  define wd1 where "wd1 = wd\<lparr>objects := (objects wd)((''default'', ''job-1'') \<mapsto> p1),
         actions := actions wd @
           [ListAction ''default'' (listOptionsFor ?ws ''job-1''),
            UpdateAction ''default'' (setLabel ?ws 1 p)]\<rparr>"
  define wd2 where "wd2 = wd1\<lparr>objects := (objects wd1)((''default'', ''job-1'') \<mapsto> p2),
         actions := actions wd1 @
           [ListAction ''default'' (listOptionsFor ?ws ''job-1''),
            UpdateAction ''default'' (setLabel ?ws 2 p1)]\<rparr>"
  define wd3 where "wd3 = wd2\<lparr>objects := (objects wd2)((''default'', ''job-1'') \<mapsto> p3),
         actions := actions wd2 @
           [ListAction ''default'' (listOptionsFor ?ws ''job-1''),
            UpdateAction ''default'' (setLabel ?ws 1 p2)]\<rparr>"
  define wd4 where "wd4 = wd3\<lparr>objects := (objects wd3)((''default'', ''job-1'') \<mapsto> p4),
         actions := actions wd3 @
           [ListAction ''default'' (listOptionsFor ?ws ''job-1''),
            UpdateAction ''default'' (setLabel ?ws 0 p3)]\<rparr>"
  have r0: "readLabel ?ws p = Inr 0" using unlabelled by (simp add: readLabel_def cfg)
  have inc0: "incrementCallback 0 = 1" and inc1: "incrementCallback 1 = 2"
    by (simp_all add: incrementCallback_def)
  have dec2: "decrementCallback ?ws 2 = 1" and dec1: "decrementCallback ?ws 1 = 0"
    by (simp_all add: decrementCallback_def cfg)
  have s1: "buildIncrementHandler ?ws (fakeClientset matches) newResponseWriter postJob1 wd =
      (Fprintf_d newResponseWriter 1, wd1)"
    unfolding buildIncrementHandler_def wd1_def p1_def
    using step [OF quiet stored name ns r0, of newResponseWriter incrementCallback]
    by (simp add: inc0)
  have s2: "buildIncrementHandler ?ws (fakeClientset matches) newResponseWriter postJob1 wd1 =
      (Fprintf_d newResponseWriter 2, wd2)"
    unfolding buildIncrementHandler_def wd2_def p2_def
    using step [of wd1 p1 1 newResponseWriter incrementCallback] quiet name ns
    by (simp add: inc1 wd1_def p1_def readLabel_written)
  have s3: "buildDecrementHandler ?ws (fakeClientset matches) newResponseWriter postJob1 wd2 =
      (Fprintf_d newResponseWriter 1, wd3)"
    unfolding buildDecrementHandler_def wd3_def p3_def
    using step [of wd2 p2 2 newResponseWriter "decrementCallback ?ws"] quiet name ns
    by (simp add: dec2 wd2_def wd1_def p2_def p1_def readLabel_written)
  have s4: "buildDecrementHandler ?ws (fakeClientset matches) newResponseWriter postJob1 wd3 =
      (Fprintf_d newResponseWriter 0, wd4)"
    unfolding buildDecrementHandler_def wd4_def p4_def
    using step [of wd3 p3 1 newResponseWriter "decrementCallback ?ws"] quiet name ns
    by (simp add: dec1 wd3_def wd2_def wd1_def p3_def p2_def p1_def readLabel_written)
  have texts: "Itoa 1 = ''1''" "Itoa 2 = ''2''" "Itoa 0 = ''0''"
    by (simp_all add: conv_defs)
  have resp: "\<And>v. status (Fprintf_d newResponseWriter v) = Some 200"
       "\<And>v. body (Fprintf_d newResponseWriter v) = [Text (Itoa v)]"
    by (simp_all add: Fprintf_d_def Write_def WriteHeader_def newResponseWriter_def Let_def)
  have l1: "storedLabel wd1 ''default'' ''job-1'' ''active-jobs'' = Some (Some ''1'')"
    by (simp add: storedLabel_def wd1_def p1_def Labels_setLabel cfg texts)
  have l2: "storedLabel wd2 ''default'' ''job-1'' ''active-jobs'' = Some (Some ''2'')"
    by (simp add: storedLabel_def wd2_def p2_def Labels_setLabel cfg texts)
  have l3: "storedLabel wd3 ''default'' ''job-1'' ''active-jobs'' = Some (Some ''1'')"
    by (simp add: storedLabel_def wd3_def p3_def Labels_setLabel cfg texts)
  have l4: "storedLabel wd4 ''default'' ''job-1'' ''active-jobs'' = Some None"
    by (simp add: storedLabel_def wd4_def p4_def Labels_setLabel cfg texts)
  show ?thesis
    by (simp only: s1 s2 s3 s4 prod.case resp texts l1 l2 l3 l4 simp_thms)
qed

theorem scenario_job1_witness:
   "case buildIncrementHandler defaultFlags (fakeClientset appSelector) newResponseWriter postJob1
           (quietWorld job1) of
      (w1, wd1) \<Rightarrow>
        status w1 = Some 200 \<and> body w1 = [Text ''1''] \<and>
        storedLabel wd1 ''default'' ''job-1'' ''active-jobs'' = Some (Some ''1'') \<and>
   (case buildIncrementHandler defaultFlags (fakeClientset appSelector) newResponseWriter postJob1 wd1 of
      (w2, wd2) \<Rightarrow>
        status w2 = Some 200 \<and> body w2 = [Text ''2''] \<and>
        storedLabel wd2 ''default'' ''job-1'' ''active-jobs'' = Some (Some ''2'') \<and>
   (case buildDecrementHandler defaultFlags (fakeClientset appSelector) newResponseWriter postJob1 wd2 of
      (w3, wd3) \<Rightarrow>
        status w3 = Some 200 \<and> body w3 = [Text ''1''] \<and>
        storedLabel wd3 ''default'' ''job-1'' ''active-jobs'' = Some (Some ''1'') \<and>
   (case buildDecrementHandler defaultFlags (fakeClientset appSelector) newResponseWriter postJob1 wd3 of
      (w4, wd4) \<Rightarrow>
        status w4 = Some 200 \<and> body w4 = [Text ''0''] \<and>
        storedLabel wd4 ''default'' ''job-1'' ''active-jobs'' = Some None)))"
  by (rule scenario_job1 [where p = job1]) (simp_all add: appSelector_def input_defs)

section \<open>A conflict that is retried\<close>

text \<open>
  Once an attempt has ended in a conflict on a response that was still unwritten,
  the status is 500 whatever the later attempts do.
\<close>

lemma conflict_fixes_the_status:
  assumes fresh: "status w = None"
    and first: "updateLabel ws clientset podName callback w st = (Some e, w1, st1)"
    and conflict: "IsConflict e"
    and result: "retryUpdateLabel ws clientset podName callback w st = (res, w', st')"
  shows "status w' = Some 500"
proof -
  have s1: "status w1 = Some 500"
    by (rule updateLabel_conflict_status [OF fresh first conflict])
  have "RetryOnConflict 3 (Some e) (updateLabel ws clientset podName callback) w1 st1 = (res, w', st')"
    using result first conflict
    by (simp add: retryUpdateLabel_def DefaultBackoff_Steps_def numeral_eq_Suc)
  from RetryOnConflict_status_kept [OF s1 this] show ?thesis .
qed

text \<open>
  C2. The retry recovers the update, but the response has been written by then:
  \<open>updateLabel\<close> sends its 500 before \<open>RetryOnConflict\<close> sees the error. On
  the pod \<open>job-1\<close> without the label, with another writer touching the pod between
  the first list call and the first update, the increment takes two attempts (four
  calls), the engine returns no error and the label 1 is stored, and the response is
  status 500 with the failure line followed by the new value.
\<close>

theorem conflict_then_success_answers_500:
  "fst (retryUpdateLabel defaultFlags (fakeClientset appSelector) ''job-1'' incrementCallback
          newResponseWriter (scriptedWorld [Quiet, touchJob1] job1)) = None \<and>
   fst (buildIncrementHandler defaultFlags (fakeClientset appSelector) newResponseWriter postJob1
          (scriptedWorld [Quiet, touchJob1] job1)) =
     \<lparr>status = Some 500, body = [ErrorLine FailedToUpdatePodLabel, Text ''1'']\<rparr> \<and>
   storedLabel
     (snd (buildIncrementHandler defaultFlags (fakeClientset appSelector) newResponseWriter postJob1
             (scriptedWorld [Quiet, touchJob1] job1)))
     ''default'' ''job-1'' ''active-jobs'' = Some (Some ''1'') \<and>
   length (actions
     (snd (buildIncrementHandler defaultFlags (fakeClientset appSelector) newResponseWriter postJob1
             (scriptedWorld [Quiet, touchJob1] job1)))) = 4"
  by (simp add: engine_defs store_defs conv_defs input_defs storedLabel_def)


section \<open>A request left alone\<close>

text \<open>
  The steps of a request are the code of \<open>updateLabelRequest\<close>: left alone, a request
  with steps to spare ends with the error, the response and the store that
  \<open>RetryOnConflict\<close> over \<open>updateLabel\<close> computes.
\<close>

lemma alone_add:
  "alone ws cs podName cb (a + b) x = alone ws cs podName cb a (alone ws cs podName cb b x)"
  by (simp add: alone_def funpow_add)

lemma attemptFailed_phase_update:
  "attemptFailed err (t\<lparr>taskPhase := ph, taskResponse := w\<rparr>) = attemptFailed err (t\<lparr>taskResponse := w\<rparr>)"
  by (simp add: attemptFailed_def)

lemma one_attempt:
  assumes "taskPhase t = Listing"
  shows "\<exists>k. alone ws cs podName cb k (t, st) =
           (case updateLabel ws cs podName cb (taskResponse t) st of
              (None, w1, st1) \<Rightarrow> (t\<lparr>taskPhase := Returned None, taskResponse := w1\<rparr>, st1)
            | (Some err, w1, st1) \<Rightarrow> (attemptFailed err (t\<lparr>taskResponse := w1\<rparr>), st1))"
proof (cases "fetchAndCompute ws cs podName cb (taskResponse t) st")
  case (fields r w1 st1)
  show ?thesis
  proof (cases r)
    case (Inl err)
    with fields assms have "alone ws cs podName cb 1 (t, st) =
        (attemptFailed err (t\<lparr>taskResponse := w1\<rparr>), st1)"
      by (simp add: alone_def taskStep_def)
    with fields Inl show ?thesis by (auto simp: updateLabel_def)
  next
    case (Inr pv)
    obtain p nv where pv: "pv = (p, nv)" by (cases pv)
    let ?t1 = "t\<lparr>taskPhase := Updating p nv, taskResponse := w1\<rparr>"
    have first: "taskStep ws cs podName cb t st = (?t1, st1)"
      using fields Inr pv assms by (simp add: taskStep_def)
    obtain r2 w2 st2 where wb: "writeBack cs p nv w1 st1 = (r2, w2, st2)"
      by (cases "writeBack cs p nv w1 st1") auto
    have upd: "updateLabel ws cs podName cb (taskResponse t) st = (r2, w2, st2)"
      using fields Inr pv wb by (simp add: updateLabel_def)
    have second: "taskStep ws cs podName cb ?t1 st1 =
        (case r2 of None \<Rightarrow> (t\<lparr>taskPhase := Returned None, taskResponse := w2\<rparr>, st2)
         | Some err \<Rightarrow> (attemptFailed err (t\<lparr>taskResponse := w2\<rparr>), st2))"
      using wb by (simp add: taskStep_def attemptFailed_phase_update split: option.splits)
    have "alone ws cs podName cb 2 (t, st) =
        (case r2 of None \<Rightarrow> (t\<lparr>taskPhase := Returned None, taskResponse := w2\<rparr>, st2)
         | Some err \<Rightarrow> (attemptFailed err (t\<lparr>taskResponse := w2\<rparr>), st2))"
      using first second by (simp add: alone_def numeral_2_eq_2)
    with upd show ?thesis by (auto split: option.splits)
  qed
qed

lemma alone_is_RetryOnConflict:
  assumes "taskPhase t = Listing" and "stepsLeft t = Suc n"
  shows "\<exists>k t'. alone ws cs podName cb k (t, st) =
             (t', snd (snd (RetryOnConflict (Suc n) (lastConflict t)
                              (updateLabel ws cs podName cb) (taskResponse t) st)))
         \<and> taskPhase t' =
             Returned (fst (RetryOnConflict (Suc n) (lastConflict t)
                              (updateLabel ws cs podName cb) (taskResponse t) st))
         \<and> taskResponse t' =
             fst (snd (RetryOnConflict (Suc n) (lastConflict t)
                              (updateLabel ws cs podName cb) (taskResponse t) st))"
  using assms
proof (induction n arbitrary: t st)
  case 0
  from one_attempt [OF "0.prems"(1), of ws cs podName cb st] obtain k where
    k: "alone ws cs podName cb k (t, st) =
           (case updateLabel ws cs podName cb (taskResponse t) st of
              (None, w1, st1) \<Rightarrow> (t\<lparr>taskPhase := Returned None, taskResponse := w1\<rparr>, st1)
            | (Some err, w1, st1) \<Rightarrow> (attemptFailed err (t\<lparr>taskResponse := w1\<rparr>), st1))"
    by blast
  obtain r w1 st1 where u: "updateLabel ws cs podName cb (taskResponse t) st = (r, w1, st1)"
    by (cases "updateLabel ws cs podName cb (taskResponse t) st") auto
  show ?case
  proof (cases r)
    case None
    with k u show ?thesis by (intro exI [of _ k]) simp
  next
    case (Some err)
    with k u "0.prems"(2) show ?thesis
      by (intro exI [of _ k]) (simp add: attemptFailed_def)
  qed
next
  case (Suc n)
  from one_attempt [OF Suc.prems(1), of ws cs podName cb st] obtain k where
    k: "alone ws cs podName cb k (t, st) =
           (case updateLabel ws cs podName cb (taskResponse t) st of
              (None, w1, st1) \<Rightarrow> (t\<lparr>taskPhase := Returned None, taskResponse := w1\<rparr>, st1)
            | (Some err, w1, st1) \<Rightarrow> (attemptFailed err (t\<lparr>taskResponse := w1\<rparr>), st1))"
    by blast
  obtain r w1 st1 where u: "updateLabel ws cs podName cb (taskResponse t) st = (r, w1, st1)"
    by (cases "updateLabel ws cs podName cb (taskResponse t) st") auto
  show ?case
  proof (cases r)
    case None
    with k u show ?thesis by (intro exI [of _ k]) simp
  next
    case (Some err)
    show ?thesis
    proof (cases "IsConflict err")
      case False
      with Some k u Suc.prems(2) show ?thesis
        by (intro exI [of _ k]) (simp add: attemptFailed_def)
    next
      case True
      let ?t1 = "attemptFailed err (t\<lparr>taskResponse := w1\<rparr>)"
      have t1: "taskPhase ?t1 = Listing" "stepsLeft ?t1 = Suc n" "lastConflict ?t1 = Some err"
        "taskResponse ?t1 = w1"
        using True Suc.prems(2) by (simp_all add: attemptFailed_def)
      from Suc.IH [OF t1(1) t1(2), of st1] obtain k' t' where
        rest: "alone ws cs podName cb k' (?t1, st1) =
             (t', snd (snd (RetryOnConflict (Suc n) (Some err)
                              (updateLabel ws cs podName cb) w1 st1)))"
        and ph: "taskPhase t' =
             Returned (fst (RetryOnConflict (Suc n) (Some err)
                              (updateLabel ws cs podName cb) w1 st1))"
        and resp: "taskResponse t' =
             fst (snd (RetryOnConflict (Suc n) (Some err)
                              (updateLabel ws cs podName cb) w1 st1))"
        unfolding t1 by blast
      have unfold: "RetryOnConflict (Suc (Suc n)) (lastConflict t)
            (updateLabel ws cs podName cb) (taskResponse t) st =
          RetryOnConflict (Suc n) (Some err) (updateLabel ws cs podName cb) w1 st1"
        using u Some True by simp
      have "alone ws cs podName cb (k' + k) (t, st) = alone ws cs podName cb k' (?t1, st1)"
        using k u Some by (simp add: alone_add)
      with rest ph resp unfold show ?thesis
        by (intro exI [of _ "k' + k"] exI [of _ t']) (simp del: RetryOnConflict.simps)
    qed
  qed
qed

section \<open>No lost updates\<close>

lemmas task_defs = newTask_def attemptFailed_def taskStep_def systemStep_def succeeded_def answered_def

lemma later_refl: "later p p"
  by (simp add: later_def)

lemma touch_later:
  "objs k = Some p \<Longrightarrow> \<exists>p1. touch k' objs k = Some p1 \<and> later p p1"
  by (auto simp: touch_def later_def split: option.splits)

lemma interfere_later:
  assumes "interfere wd = (down, wd1)" and "objects wd k = Some p"
  shows "\<exists>p1. objects wd1 k = Some p1 \<and> later p p1"
proof (cases "pending wd")
  case Nil
  with assms show ?thesis by (auto simp: interfere_def later_refl)
next
  case (Cons ev rest)
  show ?thesis
  proof (cases ev)
    case Quiet
    with Cons assms show ?thesis by (auto simp: interfere_def later_refl)
  next
    case Outage
    with Cons assms show ?thesis by (auto simp: interfere_def later_refl)
  next
    case (Touch ns name)
    with Cons assms touch_later [of "objects wd" k p "(ns, name)"] show ?thesis
      by (auto simp: interfere_def)
  qed
qed

lemma fakeList_later:
  assumes "fakeList matches ns opts wd = (res, wd1)" and "objects wd k = Some p"
  shows "\<exists>p1. objects wd1 k = Some p1 \<and> later p p1"
proof -
  let ?wd = "wd\<lparr>actions := actions wd @ [ListAction ns opts]\<rparr>"
  obtain down wd' where i: "interfere ?wd = (down, wd')" by (cases "interfere ?wd") auto
  have "objects ?wd k = Some p" using assms(2) by simp
  from interfere_later [OF i this] obtain p1 where "objects wd' k = Some p1" "later p p1" by blast
  moreover have "wd1 = wd'" using assms(1) i by (auto simp: fakeList_def split: bool.splits)
  ultimately show ?thesis by blast
qed

lemma fakeList_item:
  assumes "fakeList matches ns (listOptionsFor ws podName) wd = (Inr (q # rest), wd1)"
  shows "objects wd1 (ns, podName) = Some q"
proof -
  let ?wd = "wd\<lparr>actions := actions wd @ [ListAction ns (listOptionsFor ws podName)]\<rparr>"
  obtain down wd' where i: "interfere ?wd = (down, wd')" by (cases "interfere ?wd") auto
  from assms i have eq: "wd1 = wd'"
    and l: "storeList matches (objects wd') ns (listOptionsFor ws podName) = Inr (q # rest)"
    by (auto simp: fakeList_def split: bool.splits)
  from l have "objects wd' (ns, podName) = Some q"
    by (auto simp: storeList_def listOptionsFor_def Let_def split: option.splits if_splits)
  with eq show ?thesis by simp
qed

lemma fakeUpdate_effect:
  assumes u: "fakeUpdate ns q wd = (res, wd1)" and stored: "objects wd (ns, Name q) = Some p"
  shows "(\<exists>p1. later p p1 \<and> ResourceVersion q = ResourceVersion p1 \<and> (\<exists>r. res = Inr r) \<and>
            objects wd1 (ns, Name q) = Some (q\<lparr>ResourceVersion := Suc (ResourceVersion p1)\<rparr>))
       \<or> (\<exists>p1 e. later p p1 \<and> res = Inl e \<and> objects wd1 (ns, Name q) = Some p1)"
proof -
  let ?wd = "wd\<lparr>actions := actions wd @ [UpdateAction ns q]\<rparr>"
  obtain down wd' where i: "interfere ?wd = (down, wd')" by (cases "interfere ?wd") auto
  have "objects ?wd (ns, Name q) = Some p" using stored by simp
  from interfere_later [OF i this] obtain p1 where
    p1: "objects wd' (ns, Name q) = Some p1" and l: "later p p1" by blast
  show ?thesis
  proof (cases down)
    case True
    with u i have "res = Inl (OtherError ''connection refused'')" "wd1 = wd'"
      by (auto simp: fakeUpdate_def)
    with p1 l show ?thesis by blast
  next
    case False
    have su: "storeUpdate (objects wd') ns q =
        (if Namespace q \<noteq> ns then (Inl (StatusError StatusReasonBadRequest), objects wd')
         else if ResourceVersion q \<noteq> ResourceVersion p1 then
           (Inl (StatusError StatusReasonConflict), objects wd')
         else (Inr (q\<lparr>ResourceVersion := Suc (ResourceVersion p1)\<rparr>),
               (objects wd')((ns, Name q) \<mapsto> q\<lparr>ResourceVersion := Suc (ResourceVersion p1)\<rparr>)))"
      using p1 by (simp add: storeUpdate_def Let_def)
    from u i False have r: "res = fst (storeUpdate (objects wd') ns q)"
      "wd1 = wd'\<lparr>objects := snd (storeUpdate (objects wd') ns q)\<rparr>"
      by (auto simp: fakeUpdate_def split: prod.splits)
    show ?thesis
    proof (cases "Namespace q = ns \<and> ResourceVersion q = ResourceVersion p1")
      case True
      with r su have "res = Inr (q\<lparr>ResourceVersion := Suc (ResourceVersion p1)\<rparr>)"
        "objects wd1 (ns, Name q) = Some (q\<lparr>ResourceVersion := Suc (ResourceVersion p1)\<rparr>)"
        by simp_all
      with True l show ?thesis by blast
    next
      case False
      with r su p1 have "\<exists>e. res = Inl e" "objects wd1 (ns, Name q) = Some p1"
        by auto
      with l show ?thesis by blast
    qed
  qed
qed

lemma readLabel_later: "later p p1 \<Longrightarrow> readLabel ws p1 = readLabel ws p"
  by (simp add: later_def readLabel_def)

lemma attemptFailed_phase:
  "taskPhase (attemptFailed err t) = Listing \<or> (\<exists>e. taskPhase (attemptFailed err t) = Returned (Some e))"
  by (simp add: attemptFailed_def)

lemma attemptFailed_not_succeeded: "\<not> succeeded (attemptFailed err t)"
  using attemptFailed_phase [of err t] by (auto simp: succeeded_def)

lemma attemptFailed_snapshotOk: "snapshotOk ws podName cur p (attemptFailed err t)"
  using attemptFailed_phase [of err t] by (auto simp: snapshotOk_def)

lemma answered_Fprintf_d: "answered (t\<lparr>taskPhase := ph, taskResponse := Fprintf_d w v\<rparr>) = Text (Itoa v)"
  by (simp add: answered_def Fprintf_d_def Write_def Let_def)

lemma taskStep_effect:
  assumes step: "taskStep ws (fakeClientset matches) podName incrementCallback t wd = (t', wd')"
    and stored: "objects wd (namespace ws, podName) = Some p"
    and name: "Name p = podName" and ns: "Namespace p = namespace ws"
    and cur: "readLabel ws p = Inr cur"
    and ok: "snapshotOk ws podName cur p t"
  shows "\<exists>p'. objects wd' (namespace ws, podName) = Some p' \<and> Name p' = podName \<and>
           Namespace p' = namespace ws \<and>
           ((\<not> succeeded t \<and> succeeded t' \<and> answered t' = Text (Itoa (cur + 1)) \<and>
             readLabel ws p' = Inr (cur + 1) \<and> ResourceVersion p < ResourceVersion p')
          \<or> (succeeded t' = succeeded t \<and> (succeeded t \<longrightarrow> t' = t) \<and> readLabel ws p' = Inr cur \<and>
              ResourceVersion p \<le> ResourceVersion p' \<and> snapshotOk ws podName cur p' t'))"
proof (cases "taskPhase t")
  case (Returned res)
  with step have "t' = t" "wd' = wd" by (simp_all add: taskStep_def)
  with stored name ns cur ok show ?thesis by auto
next
  case Listing
  let ?w = "taskResponse t"
  obtain res wd1 where l: "fakeList matches (namespace ws) (listOptionsFor ws podName) wd = (res, wd1)"
    by (cases "fakeList matches (namespace ws) (listOptionsFor ws podName) wd") auto
  from fakeList_later [OF l stored] obtain p1 where
    p1: "objects wd1 (namespace ws, podName) = Some p1" and lt: "later p p1" by blast
  have key: "Name p1 = podName" "Namespace p1 = namespace ws" "ResourceVersion p \<le> ResourceVersion p1"
    using lt name ns by (simp_all add: later_def)
  have cur1: "readLabel ws p1 = Inr cur" using readLabel_later [OF lt] cur by simp
  have unsucc: "\<not> succeeded t" using Listing by (simp add: succeeded_def)
  have pl: "podsList (fakeClientset matches) (namespace ws) (listOptionsFor ws podName) wd = (res, wd1)"
    using l by (simp add: fakeClientset_def)
  show ?thesis
  proof (cases res)
    case (Inl err)
    with step Listing pl have "wd' = wd1" "\<exists>e u. t' = attemptFailed e u"
      by (auto simp: taskStep_def fetchAndCompute_def)
    with p1 key cur1 unsucc show ?thesis
      using attemptFailed_not_succeeded attemptFailed_snapshotOk by auto
  next
    case (Inr items)
    show ?thesis
    proof (cases items)
      case Nil
      with step Listing pl Inr have "wd' = wd1" "\<exists>e u. t' = attemptFailed e u"
        by (auto simp: taskStep_def fetchAndCompute_def)
      with p1 key cur1 unsucc show ?thesis
        using attemptFailed_not_succeeded attemptFailed_snapshotOk by auto
    next
      case (Cons q rest)
      with l Inr have "objects wd1 (namespace ws, podName) = Some q"
        using fakeList_item [of matches "namespace ws" ws podName wd q rest wd1] by simp
      with p1 have q: "q = p1" by simp
      from step Listing pl Inr Cons q cur1
      have t': "t' = t\<lparr>taskPhase := Updating (setLabel ws (cur + 1) p1) (cur + 1)\<rparr>"
        and wd': "wd' = wd1"
        by (simp_all add: taskStep_def fetchAndCompute_def Let_def incrementCallback_def)
      have "snapshotOk ws podName cur p1 t'"
        by (simp add: t' snapshotOk_def key readLabel_setLabel)
      moreover have "\<not> succeeded t'" by (simp add: t' succeeded_def)
      ultimately show ?thesis using p1 key cur1 unsucc wd' by auto
    qed
  qed
next
  case (Updating q nv)
  let ?w = "taskResponse t"
  from ok Updating have qn: "Name q = podName" and qns: "Namespace q = namespace ws"
    and old: "ResourceVersion q \<le> ResourceVersion p"
    and fresh: "ResourceVersion q = ResourceVersion p \<Longrightarrow> nv = cur + 1 \<and> readLabel ws q = Inr nv"
    by (simp_all add: snapshotOk_def)
  have unsucc: "\<not> succeeded t" using Updating by (simp add: succeeded_def)
  obtain res wd1 where u: "fakeUpdate (namespace ws) q wd = (res, wd1)"
    by (cases "fakeUpdate (namespace ws) q wd") auto
  have pu: "podsUpdate (fakeClientset matches) (Namespace q) q wd = (res, wd1)"
    using u qns by (simp add: fakeClientset_def)
  have stored': "objects wd (namespace ws, Name q) = Some p" using stored qn by simp
  from fakeUpdate_effect [OF u stored']
  show ?thesis
  proof
    assume "\<exists>p1. later p p1 \<and> ResourceVersion q = ResourceVersion p1 \<and> (\<exists>r. res = Inr r) \<and>
            objects wd1 (namespace ws, Name q) = Some (q\<lparr>ResourceVersion := Suc (ResourceVersion p1)\<rparr>)"
    then obtain p1 r where lt: "later p p1" and same: "ResourceVersion q = ResourceVersion p1"
      and res: "res = Inr r"
      and now: "objects wd1 (namespace ws, podName) = Some (q\<lparr>ResourceVersion := Suc (ResourceVersion p1)\<rparr>)"
      using qn by auto
    from lt have "ResourceVersion p \<le> ResourceVersion p1" by (simp add: later_def)
    with old same have eq: "ResourceVersion q = ResourceVersion p" by simp
    from fresh [OF eq] have nv: "nv = cur + 1" and rq: "readLabel ws q = Inr nv" by simp_all
    from step Updating pu res
    have t': "t' = t\<lparr>taskPhase := Returned None, taskResponse := Fprintf_d ?w nv\<rparr>" and wd': "wd' = wd1"
      by (simp_all add: taskStep_def writeBack_def)
    have "succeeded t'" by (simp add: t' succeeded_def)
    moreover have "answered t' = Text (Itoa (cur + 1))"
      by (simp add: t' answered_Fprintf_d nv)
    moreover have "readLabel ws (q\<lparr>ResourceVersion := Suc (ResourceVersion p1)\<rparr>) = Inr (cur + 1)"
      using rq nv by (simp add: readLabel_def)
    moreover have "ResourceVersion p < ResourceVersion (q\<lparr>ResourceVersion := Suc (ResourceVersion p1)\<rparr>)"
      using eq same by simp
    ultimately show ?thesis using now wd' qn qns unsucc by auto
  next
    assume "\<exists>p1 e. later p p1 \<and> res = Inl e \<and> objects wd1 (namespace ws, Name q) = Some p1"
    then obtain p1 e where lt: "later p p1" and res: "res = Inl e"
      and p1: "objects wd1 (namespace ws, podName) = Some p1"
      using qn by auto
    have key: "Name p1 = podName" "Namespace p1 = namespace ws" "ResourceVersion p \<le> ResourceVersion p1"
      using lt name ns by (simp_all add: later_def)
    have cur1: "readLabel ws p1 = Inr cur" using readLabel_later [OF lt] cur by simp
    from step Updating pu res have "wd' = wd1" "\<exists>e u. t' = attemptFailed e u"
      by (auto simp: taskStep_def writeBack_def)
    with p1 key cur1 unsucc show ?thesis
      using attemptFailed_not_succeeded attemptFailed_snapshotOk by auto
  qed
qed

lemma filter_update_gain:
  "i < length xs \<Longrightarrow> \<not> P (xs ! i) \<Longrightarrow> P y \<Longrightarrow>
     mset (filter P (xs[i := y])) = add_mset y (mset (filter P xs))"
proof (induction xs arbitrary: i)
  case Nil
  then show ?case by simp
next
  case (Cons x xs)
  then show ?case by (cases i) auto
qed

lemma filter_update_same:
  "i < length xs \<Longrightarrow> \<not> P (xs ! i) \<Longrightarrow> \<not> P y \<Longrightarrow> filter P (xs[i := y]) = filter P xs"
proof (induction xs arbitrary: i)
  case Nil
  then show ?case by simp
next
  case (Cons x xs)
  then show ?case by (cases i) auto
qed

lemma snapshotOk_later:
  "snapshotOk ws podName cur p u \<Longrightarrow> ResourceVersion p \<le> ResourceVersion p' \<Longrightarrow>
     snapshotOk ws podName cur p' u"
  by (auto simp: snapshotOk_def split: phase.splits)

lemma snapshotOk_newer:
  "snapshotOk ws podName cur p u \<Longrightarrow> ResourceVersion p < ResourceVersion p' \<Longrightarrow>
     snapshotOk ws podName cur' p' u"
  by (auto simp: snapshotOk_def split: phase.splits)

lemma snapshotOk_succeeded: "succeeded u \<Longrightarrow> snapshotOk ws podName cur p u"
  by (simp add: snapshotOk_def succeeded_def)

lemma answers_Suc: "answers v0 (Suc n) = answers v0 n @ [Text (Itoa (v0 + of_nat n + 1))]"
  by (simp add: answers_def ac_simps)

lemma consistent_step:
  assumes inv: "consistent ws podName v0 sys"
  shows "consistent ws podName v0
           (systemStep ws (fakeClientset matches) podName incrementCallback i sys)"
proof (cases "i < length (tasks sys)")
  case False
  with inv show ?thesis by (simp add: systemStep_def)
next
  case True
  let ?xs = "tasks sys"
  let ?n = "length (filter succeeded ?xs)"
  let ?cur = "v0 + of_nat ?n"
  let ?t = "?xs ! i"
  from inv obtain p where stored: "objects (store sys) (namespace ws, podName) = Some p"
    and name: "Name p = podName" and ns: "Namespace p = namespace ws"
    and cur: "readLabel ws p = Inr ?cur"
    and snaps: "\<forall>t \<in> set ?xs. snapshotOk ws podName ?cur p t"
    and ans: "mset (map answered (filter succeeded ?xs)) = mset (answers v0 ?n)"
    unfolding consistent_def by blast
  obtain t' wd' where step:
    "taskStep ws (fakeClientset matches) podName incrementCallback ?t (store sys) = (t', wd')"
    by (cases "taskStep ws (fakeClientset matches) podName incrementCallback ?t (store sys)") auto
  let ?sys' = "\<lparr>tasks = ?xs[i := t'], store = wd'\<rparr>"
  have next_sys: "systemStep ws (fakeClientset matches) podName incrementCallback i sys = ?sys'"
    using True step by (simp add: systemStep_def)
  have mem: "?t \<in> set ?xs" using True by simp
  have ok: "snapshotOk ws podName ?cur p ?t" using snaps mem by blast
  have others: "\<And>u. u \<in> set (?xs[i := t']) \<Longrightarrow> u = t' \<or> u \<in> set ?xs"
    using set_update_subset_insert [of ?xs i t'] by auto
  from taskStep_effect [OF step stored name ns cur ok] obtain p' where
    stored': "objects wd' (namespace ws, podName) = Some p'"
    and name': "Name p' = podName" and ns': "Namespace p' = namespace ws"
    and alt: "(\<not> succeeded ?t \<and> succeeded t' \<and> answered t' = Text (Itoa (?cur + 1)) \<and>
             readLabel ws p' = Inr (?cur + 1) \<and> ResourceVersion p < ResourceVersion p')
          \<or> (succeeded t' = succeeded ?t \<and> (succeeded ?t \<longrightarrow> t' = ?t) \<and> readLabel ws p' = Inr ?cur \<and>
              ResourceVersion p \<le> ResourceVersion p' \<and> snapshotOk ws podName ?cur p' t')"
    by blast
  from alt show ?thesis
  proof
    assume a: "\<not> succeeded ?t \<and> succeeded t' \<and> answered t' = Text (Itoa (?cur + 1)) \<and>
             readLabel ws p' = Inr (?cur + 1) \<and> ResourceVersion p < ResourceVersion p'"
    have gain: "mset (filter succeeded (?xs[i := t'])) = add_mset t' (mset (filter succeeded ?xs))"
      using filter_update_gain [of i ?xs succeeded t'] True a by simp
    have count: "length (filter succeeded (?xs[i := t'])) = Suc ?n"
      using arg_cong [OF gain, of size] by (simp only: size_add_mset size_mset)
    have bump: "v0 + of_nat (Suc ?n) = ?cur + 1" by (simp add: add.assoc)
    have "mset (map answered (filter succeeded (?xs[i := t']))) =
        image_mset answered (mset (filter succeeded (?xs[i := t'])))"
      by simp
    also have "\<dots> = add_mset (answered t') (image_mset answered (mset (filter succeeded ?xs)))"
      by (simp only: gain image_mset_add_mset)
    also have "\<dots> = add_mset (Text (Itoa (?cur + 1))) (mset (answers v0 ?n))"
      using a ans by simp
    also have "\<dots> = mset (answers v0 (Suc ?n))"
      by (simp add: answers_Suc)
    finally have ans': "mset (map answered (filter succeeded (?xs[i := t']))) =
        mset (answers v0 (Suc ?n))" .
    have snaps': "\<forall>u \<in> set (?xs[i := t']). snapshotOk ws podName (?cur + 1) p' u"
    proof
      fix u assume "u \<in> set (?xs[i := t'])"
      from others [OF this] show "snapshotOk ws podName (?cur + 1) p' u"
      proof
        assume "u = t'"
        with a show ?thesis by (simp add: snapshotOk_succeeded)
      next
        assume "u \<in> set ?xs"
        with snaps have "snapshotOk ws podName ?cur p u" by blast
        from snapshotOk_newer [OF this] a show ?thesis by blast
      qed
    qed
    have "consistent ws podName v0 ?sys'"
      unfolding consistent_def
      using stored' name' ns' a snaps' ans'
      by (simp add: count bump del: of_nat_Suc)
    with next_sys show ?thesis by simp
  next
    assume b: "succeeded t' = succeeded ?t \<and> (succeeded ?t \<longrightarrow> t' = ?t) \<and> readLabel ws p' = Inr ?cur \<and>
              ResourceVersion p \<le> ResourceVersion p' \<and> snapshotOk ws podName ?cur p' t'"
    have same: "filter succeeded (?xs[i := t']) = filter succeeded ?xs"
    proof (cases "succeeded ?t")
      case True
      with b have "t' = ?t" by simp
      then show ?thesis by simp
    next
      case False
      with b have "\<not> succeeded t'" by simp
      from filter_update_same [of i ?xs succeeded t', OF \<open>i < length ?xs\<close> False this]
      show ?thesis .
    qed
    have snaps': "\<forall>u \<in> set (?xs[i := t']). snapshotOk ws podName ?cur p' u"
    proof
      fix u assume "u \<in> set (?xs[i := t'])"
      from others [OF this] show "snapshotOk ws podName ?cur p' u"
      proof
        assume "u = t'"
        with b show ?thesis by simp
      next
        assume "u \<in> set ?xs"
        with snaps have "snapshotOk ws podName ?cur p u" by blast
        from snapshotOk_later [OF this] b show ?thesis by blast
      qed
    qed
    have "consistent ws podName v0 ?sys'"
      unfolding consistent_def
      using stored' name' ns' b snaps' ans
      by (simp add: same)
    with next_sys show ?thesis by simp
  qed
qed

lemma consistent_run:
  "consistent ws podName v0 sys \<Longrightarrow>
     consistent ws podName v0 (run ws (fakeClientset matches) podName incrementCallback schedule sys)"
  by (induction schedule arbitrary: sys) (simp_all add: consistent_step)

lemma length_tasks_step:
  "length (tasks (systemStep ws clientset podName callback i sys)) = length (tasks sys)"
  by (simp add: systemStep_def split: prod.splits)

lemma length_tasks_run:
  "length (tasks (run ws clientset podName callback schedule sys)) = length (tasks sys)"
  by (induction schedule arbitrary: sys) (simp_all add: length_tasks_step)

lemma consistent_start:
  assumes "objects wd (namespace ws, podName) = Some p" and "Name p = podName"
    and "Namespace p = namespace ws" and "readLabel ws p = Inr v0"
  shows "consistent ws podName v0 \<lparr>tasks = replicate n newTask, store = wd\<rparr>"
proof -
  have none: "filter succeeded (replicate n newTask) = []"
    by (simp add: succeeded_def newTask_def)
  have "snapshotOk ws podName v0 p newTask"
    by (simp add: snapshotOk_def newTask_def)
  with assms none show ?thesis
    by (simp add: consistent_def answers_def)
qed

lemma Itoa_inj:
  assumes "Itoa a = Itoa b"
  shows "a = b"
proof -
  have "Atoi (Itoa a) = Atoi (Itoa b)" by (simp only: assms)
  then have "(Inr a :: num_error + go_int) = Inr b" by (simp only: Atoi_Itoa)
  then show ?thesis by (simp only: sum.inject)
qed

lemma distinct_answers:
  assumes "n < 2 ^ 64"
  shows "distinct (answers v0 n)"
proof -
  have "inj_on (\<lambda>k. Text (Itoa (v0 + of_nat k))) (set [1..<Suc n])"
  proof (rule inj_onI)
    fix j k assume j: "j \<in> set [1..<Suc n]" and k: "k \<in> set [1..<Suc n]"
      and eq: "Text (Itoa (v0 + of_nat j)) = Text (Itoa (v0 + of_nat k))"
    from eq have "Itoa (v0 + of_nat j) = Itoa (v0 + of_nat k)" by (simp only: chunk.inject)
    then have "v0 + (of_nat j :: go_int) = v0 + of_nat k" by (rule Itoa_inj)
    then have "(of_nat j :: go_int) = of_nat k" by simp
    then have "unat (of_nat j :: go_int) = unat (of_nat k :: go_int)" by simp
    moreover have "j \<le> n" "k \<le> n" using j k by auto
    then have "j < 2 ^ 64" "k < 2 ^ 64" using assms by linarith+
    ultimately show "j = k" by (simp add: unat_of_nat)
  qed
  then show ?thesis by (simp add: answers_def distinct_map)
qed

text \<open>
  C1, as the code has it. Any number of increment requests for one pod run against
  the store in any interleaving of their list and update calls, with other writers
  touching the pod and calls failing as the script of the world says. Whatever the
  schedule, the counter the stored pod shows at the end is the start value plus the
  number of requests that succeeded (in Go's 64-bit arithmetic); the requests that
  succeeded answered the values from start + 1 up to that counter, one each, so no
  two of them incremented the same base value; and when every request has succeeded
  the counter is the start value plus the number of requests.
\<close>

theorem no_lost_updates:
  fixes ws :: webhookServer and schedule :: "nat list"
  defines "final \<equiv> \<lambda>matches podName n wd.
     run ws (fakeClientset matches) podName incrementCallback schedule
       \<lparr>tasks = replicate n newTask, store = wd\<rparr>"
  assumes stored: "objects wd (namespace ws, podName) = Some p"
    and name: "Name p = podName" and ns: "Namespace p = namespace ws"
    and start: "readLabel ws p = Inr v0"
  shows "storedCounter ws (objects (store (final matches podName n wd))) podName =
           Some (v0 + of_nat (length (filter succeeded (tasks (final matches podName n wd)))))
     \<and> mset (map answered (filter succeeded (tasks (final matches podName n wd)))) =
           mset (answers v0 (length (filter succeeded (tasks (final matches podName n wd)))))
     \<and> (n < 2 ^ 64 \<longrightarrow> distinct (map answered (filter succeeded (tasks (final matches podName n wd)))))
     \<and> ((\<forall>t \<in> set (tasks (final matches podName n wd)). succeeded t) \<longrightarrow>
           storedCounter ws (objects (store (final matches podName n wd))) podName =
             Some (v0 + of_nat n))"
proof -
  let ?sys = "final matches podName n wd"
  let ?done = "length (filter succeeded (tasks ?sys))"
  have inv: "consistent ws podName v0 ?sys"
    unfolding final_def
    by (rule consistent_run [OF consistent_start [OF stored name ns start]])
  have len: "length (tasks ?sys) = n"
    unfolding final_def by (simp add: length_tasks_run)
  from inv have counter: "storedCounter ws (objects (store ?sys)) podName = Some (v0 + of_nat ?done)"
    and ans: "mset (map answered (filter succeeded (tasks ?sys))) = mset (answers v0 ?done)"
    by (auto simp: consistent_def storedCounter_def)
  have le: "?done \<le> n" using length_filter_le [of succeeded "tasks ?sys"] len by simp
  have dist: "n < 2 ^ 64 \<longrightarrow> distinct (map answered (filter succeeded (tasks ?sys)))"
  proof
    assume "n < 2 ^ 64"
    with le have "?done < 2 ^ 64" by simp
    from distinct_answers [OF this, of v0] mset_eq_imp_distinct_iff [OF ans]
    show "distinct (map answered (filter succeeded (tasks ?sys)))" by simp
  qed
  have full: "(\<forall>t \<in> set (tasks ?sys). succeeded t) \<longrightarrow>
           storedCounter ws (objects (store ?sys)) podName = Some (v0 + of_nat n)"
  proof
    assume "\<forall>t \<in> set (tasks ?sys). succeeded t"
    then have "filter succeeded (tasks ?sys) = tasks ?sys" by simp
    with len have "?done = n" by simp
    with counter show "storedCounter ws (objects (store ?sys)) podName = Some (v0 + of_nat n)"
      by simp
  qed
  from counter ans dist full show ?thesis by blast
qed

theorem no_lost_updates_witness:
  "objects (quietWorld job1) (namespace defaultFlags, ''job-1'') = Some job1 \<and>
   readLabel defaultFlags job1 = Inr 0 \<and>
   map taskPhase (tasks racedRun) = [Returned None, Returned None] \<and>
   map (status \<circ> taskResponse) (tasks racedRun) = [Some 500, Some 200] \<and>
   storedCounter defaultFlags (objects (store racedRun)) ''job-1'' = Some 2 \<and>
   distinct (map answered (filter succeeded (tasks racedRun)))"
proof -
  have stored: "objects (quietWorld job1) (namespace defaultFlags, ''job-1'') = Some job1"
    by (simp add: input_defs)
  have name: "Name job1 = ''job-1''" and ns: "Namespace job1 = namespace defaultFlags"
    by (simp_all add: input_defs)
  have start: "readLabel defaultFlags job1 = Inr 0"
    by (simp add: readLabel_def input_defs)
  have ran: "map taskPhase (tasks racedRun) = [Returned None, Returned None] \<and>
      map (status \<circ> taskResponse) (tasks racedRun) = [Some 500, Some 200]"
    by (simp add: racedRun_def task_defs engine_defs store_defs conv_defs input_defs)
  then have all: "\<forall>t \<in> set (tasks racedRun). succeeded t"
    by (auto simp: succeeded_def list_eq_iff_nth_eq in_set_conv_nth less_Suc_eq
        dest!: arg_cong [where f = length])
  have small: "(2 :: nat) < 2 ^ 64" by simp
  have two: "[newTask, newTask] = replicate 2 newTask" by (simp add: numeral_2_eq_2)
  from no_lost_updates [OF stored name ns start,
      where schedule = "[0, 1, 1, 0, 0, 0]" and matches = appSelector and n = 2]
    all small
  have "storedCounter defaultFlags (objects (store racedRun)) ''job-1'' = Some (0 + of_nat 2)"
    and "distinct (map answered (filter succeeded (tasks racedRun)))"
    unfolding racedRun_def two by blast+
  with stored start ran show ?thesis by simp
qed

text \<open>
  C1 as stated promises start + N whatever the number of conflicts. The retry budget
  is four attempts: of five increments on the counter 0, the first is outrun four
  times and gives up with the conflict; all five have returned and the counter is 4.
\<close>

theorem starved_increment_counterexample:
  "storedCounter defaultFlags (objects (quietWorld job1)) ''job-1'' = Some 0 \<and>
   length (tasks starvedRun) = 5 \<and>
   map taskPhase (tasks starvedRun) =
     [Returned (Some (Wrap (StatusError StatusReasonConflict) ''failed to update pod label'' [])),
      Returned None, Returned None, Returned None, Returned None] \<and>
   storedCounter defaultFlags (objects (store starvedRun)) ''job-1'' = Some 4"
  by (simp add: starvedRun_def task_defs engine_defs store_defs conv_defs input_defs)

end
